theory Spec2Isabelle
  imports Main "HOL-Library.AList"
begin

section \<open>The daylight-coefficient grid-based recipe\<close>

text \<open>
  A shallow embedding of \<^verbatim>\<open>honeybee/radiance/recipe/daylightcoeff/gridbased.py\<close>,
  class \<^verbatim>\<open>DaylightCoeffGridBased\<close>. Python objects are records, attribute
  assignment is record update, a raised exception is the left injection of a sum, and
  the loops of \<^verbatim>\<open>results\<close> are recursive functions. Assertions are modelled as
  they behave in Python's default mode (not under \<^verbatim>\<open>-O\<close>).
\<close>

subsection \<open>Data model\<close>

text \<open>
  The exceptions met in the class: a failed \<^verbatim>\<open>assert\<close> (with its message), the
  \<^verbatim>\<open>IndexError\<close> of a list subscript out of range, and the \<^verbatim>\<open>TypeError\<close> of
  \<^verbatim>\<open>int(None)\<close>, which the simulation-type setter catches.
\<close>

datatype py_error = AssertionError string | IndexError | TypeError

text \<open>
  An analysis grid, as far as the recipe reads it: \<^verbatim>\<open>len(grid)\<close> is the number
  of its analysis points, and the values loaded for a \<open>(source, state)\<close> pair are
  kept as the data lines they were read from.
\<close>

record 'pt analysis_grid =
  gridName :: string
  analysisPoints :: "'pt list"
  gridValues :: "((string \<times> string) \<times> string list) list"

definition len_grid :: "'pt analysis_grid \<Rightarrow> nat" where
  "len_grid g = length (analysisPoints g)"

record sky_matrix =
  skyName :: string
  isPointInTime :: bool
  isClimateBased :: bool
  skyDensity :: nat
  skyType :: int
  hoys :: "nat list"

record window_group =
  groupName :: string
  stateCount :: int

text \<open>
  The recipe object. The fields \<open>simType\<close>, \<open>commands\<close>, \<open>resultFiles\<close> and
  \<open>isCalculated\<close> are the private attributes \<^verbatim>\<open>_simType\<close>, \<^verbatim>\<open>_commands\<close>,
  \<^verbatim>\<open>_resultFiles\<close> and \<^verbatim>\<open>_isCalculated\<close>; the radiance parameters are opaque to
  the recipe and stay a type parameter.
\<close>

record ('pt, 'par) recipe =
  skyMatrix :: sky_matrix
  simType :: int
  analysisGrids :: "'pt analysis_grid list"
  windowGroups :: "window_group list"
  radianceParameters :: 'par
  reuseDaylightMtx :: bool
  commands :: "string list"
  resultFiles :: "string list"
  isCalculated :: bool

subsection \<open>The derived run count\<close>

text \<open>
  Python's \<^verbatim>\<open>sum\<close> adds from the left, starting at \<open>0\<close>.
\<close>

definition py_sum :: "int list \<Rightarrow> int" where
  "py_sum xs = foldl (+) 0 xs"

text \<open>
  \<^verbatim>\<open>return sum(wg.stateCount for wg in self.windowGroups) + 1\<close>
\<close>

definition totalRunsCount :: "('pt, 'par) recipe \<Rightarrow> int" where
  "totalRunsCount r = py_sum (map stateCount (windowGroups r)) + 1"

subsection \<open>Result file names\<close>

text \<open>
  \<^verbatim>\<open>os.path.split(rf)[-1]\<close>: the part of the path after its last slash (the
  whole path when it has none). This is the POSIX flavour of \<^verbatim>\<open>os.path\<close>.
\<close>

definition path_tail :: "string \<Rightarrow> string" where
  "path_tail p = rev (takeWhile (\<lambda>c. c \<noteq> CHR ''/'') (rev p))"

text \<open>
  The slice \<^verbatim>\<open>s[:-4]\<close>: all but the last four characters, and the empty string
  when \<open>s\<close> has fewer than four.
\<close>

definition drop_last4 :: "string \<Rightarrow> string" where
  "drop_last4 s = take (length s - 4) s"

text \<open>
  \<^verbatim>\<open>s.split("..")\<close>: Python scans from the left and cuts at every occurrence of
  the separator that does not overlap an earlier one; the result is never empty. The
  first argument collects the current segment in reverse.
\<close>

fun split_dotdot_from :: "string \<Rightarrow> string \<Rightarrow> string list" where
  "split_dotdot_from seg (c # d # cs) =
     (if c = CHR ''.'' \<and> d = CHR ''.'' then rev seg # split_dotdot_from [] cs
      else split_dotdot_from (c # seg) (d # cs))"
| "split_dotdot_from seg [c] = [rev (c # seg)]"
| "split_dotdot_from seg [] = [rev seg]"

definition split_dotdot :: "string \<Rightarrow> string list" where
  "split_dotdot s = split_dotdot_from [] s"

text \<open>
  A list subscript \<^verbatim>\<open>xs[i]\<close>: a negative index counts from the end, and an index
  outside the list raises \<^verbatim>\<open>IndexError\<close>.
\<close>

definition py_item :: "'a list \<Rightarrow> int \<Rightarrow> py_error + 'a" where
  "py_item xs i =
     (if 0 \<le> i \<and> i < int (length xs) then Inr (xs ! nat i)
      else if i < 0 \<and> - i \<le> int (length xs) then Inr (xs ! nat (int (length xs) + i))
      else Inl IndexError)"

text \<open>
  \<^verbatim>\<open>fn = os.path.split(rf)[-1][:-4].split("..")\<close>
\<close>

definition fileNameSegments :: "string \<Rightarrow> string list" where
  "fileNameSegments rf = split_dotdot (drop_last4 (path_tail rf))"

text \<open>
  \<^verbatim>\<open>source = fn[-2]; state = fn[-1]\<close>, in this order.
\<close>

definition fileSourceState :: "string \<Rightarrow> py_error + (string \<times> string)" where
  "fileSourceState rf =
     (let fn = fileNameSegments rf in
      case py_item fn (- 2) of
        Inl e \<Rightarrow> Inl e
      | Inr source \<Rightarrow>
          (case py_item fn (- 1) of
             Inl e \<Rightarrow> Inl e
           | Inr state \<Rightarrow> Inr (source, state)))"

text \<open>
  Whether a string holds two adjacent dots. It is used to speak about file names
  without going through the parser above.
\<close>

fun has_dotdot :: "string \<Rightarrow> bool" where
  "has_dotdot (c # d # cs) = ((c = CHR ''.'' \<and> d = CHR ''.'') \<or> has_dotdot (d # cs))"
| "has_dotdot [c] = False"
| "has_dotdot [] = False"

subsection \<open>Loading the results\<close>

text \<open>
  Modelled from the spec: \<^verbatim>\<open>AnalysisGrid.setValuesFromFile\<close> belongs to the
  analysis-grid class, which is not part of this source file. The specification
  says that, for each grid, the merger "writes \<^verbatim>\<open>len(grid)\<close> consecutive data
  lines starting at a running line offset", and that no shape check is made. The
  argument \<open>lines\<close> is the data lines of the result file (after its header); the
  lines a grid receives are stored under the \<open>(source, state)\<close> pair, replacing what
  was stored there. The hours are passed on as the recipe passes them.
\<close>

definition setValuesFromFile ::
  "'pt analysis_grid \<Rightarrow> string list \<Rightarrow> nat list \<Rightarrow> string \<Rightarrow> string \<Rightarrow> nat \<Rightarrow> 'pt analysis_grid"
where
  "setValuesFromFile g lines hs source state startLine =
     g\<lparr>gridValues :=
         AList.update (source, state) (take (len_grid g) (drop startLine lines)) (gridValues g)\<rparr>"

text \<open>
  The inner loop of \<^verbatim>\<open>results\<close>, over \<^verbatim>\<open>enumerate(self.analysisGrids)\<close>:
  \<^verbatim>\<open>
    if count:
        startLine += len(self.analysisGrids[count - 1])
    analysisGrid.setValuesFromFile(rf, hoys, source, state, startLine=startLine, ...)
  \<close>
  The grids are updated in place, so the length of the previous grid is read from the
  list as it is after the previous iteration. The grids of the list are taken to be
  distinct objects.
\<close>

function loadGrids ::
  "string list \<Rightarrow> nat list \<Rightarrow> string \<Rightarrow> string \<Rightarrow> nat \<Rightarrow> nat \<Rightarrow>
   'pt analysis_grid list \<Rightarrow> 'pt analysis_grid list"
where
  "loadGrids lines hs source state count startLine gs =
     (if count < length gs then
        (let startLine' =
               (if count \<noteq> 0 then startLine + len_grid (gs ! (count - 1)) else startLine)
         in loadGrids lines hs source state (Suc count) startLine'
              (gs[count := setValuesFromFile (gs ! count) lines hs source state startLine']))
      else gs)"
  by pat_completeness auto
termination
  by (relation "measure (\<lambda>(lines, hs, source, state, count, startLine, gs). length gs - count)")
    auto

text \<open>
  The outer loop, \<^verbatim>\<open>for rf in self._resultFiles\<close>. The first argument gives the
  data lines of the file at a path. The source and the state are parsed before any
  grid is touched; \<^verbatim>\<open>startLine = 0\<close> starts each file.
\<close>

fun mergeFiles ::
  "(string \<Rightarrow> string list) \<Rightarrow> nat list \<Rightarrow> string list \<Rightarrow>
   'pt analysis_grid list \<Rightarrow> py_error + 'pt analysis_grid list"
where
  "mergeFiles fileData hs [] gs = Inr gs"
| "mergeFiles fileData hs (rf # rfs) gs =
     (case fileSourceState rf of
        Inl e \<Rightarrow> Inl e
      | Inr (source, state) \<Rightarrow>
          mergeFiles fileData hs rfs (loadGrids (fileData rf) hs source state 0 0 gs))"

definition notRunMessage :: string where
  "notRunMessage =
     ''You haven'' @ [CHR 0x27] @ ''t run the Recipe yet. Use self.run '' @
     ''to run the analysis before loading the results.''"

text \<open>
  \<^verbatim>\<open>results\<close>: the assertion on \<^verbatim>\<open>_isCalculated\<close>, then the merge; the value
  returned is the list of analysis grids. When an exception ends the call nothing is
  returned, and the grids loaded before it are not part of the outcome. (The progress
  line printed for each file is left out.)
\<close>

definition results ::
  "(string \<Rightarrow> string list) \<Rightarrow> ('pt, 'par) recipe \<Rightarrow> py_error + 'pt analysis_grid list"
where
  "results fileData r =
     (if \<not> isCalculated r then Inl (AssertionError notRunMessage)
      else mergeFiles fileData (hoys (skyMatrix r)) (resultFiles r) (analysisGrids r))"

text \<open>
  The merger in the specification's words: the grids in declaration order, each
  given its lines at the running offset, which grows by the size of each grid passed.
\<close>

fun placeGrids ::
  "string list \<Rightarrow> nat list \<Rightarrow> string \<Rightarrow> string \<Rightarrow> nat \<Rightarrow>
   'pt analysis_grid list \<Rightarrow> 'pt analysis_grid list"
where
  "placeGrids lines hs source state offset [] = []"
| "placeGrids lines hs source state offset (g # gs) =
     setValuesFromFile g lines hs source state offset
       # placeGrids lines hs source state (offset + len_grid g) gs"

subsection \<open>The simulation type\<close>

text \<open>
  The values handed to the setter: Python integers, booleans and \<^verbatim>\<open>None\<close>.
  \<^verbatim>\<open>int\<close> is the identity on an integer, maps \<^verbatim>\<open>False\<close> and \<^verbatim>\<open>True\<close> to
  \<open>0\<close> and \<open>1\<close>, and raises \<^verbatim>\<open>TypeError\<close> on \<^verbatim>\<open>None\<close>. Strings and floats are
  not modelled.
\<close>

datatype py_value = PyInt int | PyBool bool | PyNone

fun py_int :: "py_value \<Rightarrow> py_error + int" where
  "py_int (PyInt n) = Inr n"
| "py_int (PyBool b) = Inr (if b then 1 else 0)"
| "py_int PyNone = Inl TypeError"

text \<open>Decimal digits, for \<^verbatim>\<open>"{}".format(value)\<close> on an integer.\<close>

function show_nat :: "nat \<Rightarrow> string" where
  "show_nat n =
     (if n < 10 then [''0123456789'' ! n]
      else show_nat (n div 10) @ [''0123456789'' ! (n mod 10)])"
  by pat_completeness auto
termination
  by (relation "measure (\<lambda>n. n)") auto

declare show_nat.simps [simp del]

definition show_int :: "int \<Rightarrow> string" where
  "show_int i = (if i < 0 then ''-'' @ show_nat (nat (- i)) else show_nat (nat i))"

definition simTypeRangeMessage :: "int \<Rightarrow> string" where
  "simTypeRangeMessage v =
     ''Simulation type should be between 0-2. Current value: '' @ show_int v"

definition notClimateBasedMessage :: string where
  "notClimateBasedMessage = ''The sky for radition analysis should be climate-based.''"

text \<open>
  The setter of \<^verbatim>\<open>simulationType\<close>:
  \<^verbatim>\<open>
    try:
        value = int(value)
    except TypeError:
        value = 0
    assert 0 <= value <= 2, ...
    if value == 1:
        assert self.skyMatrix.isClimateBased, ...
    self._simType = value
    self.skyMatrix.skyType = value
  \<close>
  The sky object is the recipe's own field here, so the last assignment is an update
  of the sky inside the recipe.
\<close>

definition set_simulationType ::
  "py_value \<Rightarrow> ('pt, 'par) recipe \<Rightarrow> py_error + ('pt, 'par) recipe"
where
  "set_simulationType v r =
     (case (case py_int v of
              Inl TypeError \<Rightarrow> Inr 0
            | Inl e \<Rightarrow> Inl e
            | Inr n \<Rightarrow> Inr n) of
        Inl e \<Rightarrow> Inl e
      | Inr value \<Rightarrow>
          if \<not> (0 \<le> value \<and> value \<le> 2)
          then Inl (AssertionError (simTypeRangeMessage value))
          else if value = 1 \<and> \<not> isClimateBased (skyMatrix r)
          then Inl (AssertionError notClimateBasedMessage)
          else Inr (r\<lparr>simType := value, skyMatrix := (skyMatrix r)\<lparr>skyType := value\<rparr>\<rparr>))"

subsection \<open>Writing the analysis files\<close>

text \<open>
  \<^verbatim>\<open>os.path.join(a, b)\<close>, POSIX flavour: an absolute \<open>b\<close> replaces \<open>a\<close>, and a
  slash is put between the two unless \<open>a\<close> is empty or ends in one.
\<close>

definition os_path_join :: "string \<Rightarrow> string \<Rightarrow> string" where
  "os_path_join a b =
     (if b \<noteq> [] \<and> hd b = CHR ''/'' then b
      else if a = [] \<or> last a = CHR ''/'' then a @ b
      else a @ ''/'' @ b)"

text \<open>\<^verbatim>\<open>sep.join(xs)\<close>\<close>

fun py_join :: "string \<Rightarrow> string list \<Rightarrow> string" where
  "py_join sep [] = []"
| "py_join sep [x] = x"
| "py_join sep (x # y # ys) = x @ sep @ py_join sep (y # ys)"

text \<open>
  One stage of the build: the commands that generate it and the files they produce,
  named relative to the project folder.
\<close>

record stage =
  stageCommands :: "string list"
  stageOutputs :: "string list"

text \<open>
  What \<^verbatim>\<open>write\<close> hands to the two daylight-coefficient builders, besides the reuse
  flag (and the window groups, for the second).
\<close>

record 'par stage_args =
  argProjectName :: string
  argSkyDensity :: nat
  argProjectFolder :: string
  argSkyFiles :: "string list"
  argInputFiles :: "string list \<times> string list \<times> string list \<times> string list"
  argPointsFile :: string
  argTotalPointCount :: nat
  argRadianceParameters :: 'par
  argTotalRunsCount :: int

text \<open>
  The collaborators of \<^verbatim>\<open>write\<close> that are not part of this source file are taken
  as parameters: the folder and file writers of the base classes and of
  \<^verbatim>\<open>recipeutil\<close> (with what they return), the header line, the state of the disk
  when the builders look at it, and the content of each stage (its commands and
  output files) as the builders of \<^verbatim>\<open>recipeutil\<close> compose it.
\<close>

record 'par site =
  writeContent :: "string \<Rightarrow> string \<Rightarrow> string"
  writeRadFilesDaylightCoeff :: "string \<Rightarrow> string \<Rightarrow> string list \<times> string list \<times> string list"
  writeExtraFiles :: "string \<Rightarrow> string list"
  writeAnalysisGrids :: "string \<Rightarrow> string \<Rightarrow> string"
  header :: "string \<Rightarrow> string"
  fileExists :: "string \<Rightarrow> bool"
  skyStage :: "string \<Rightarrow> sky_matrix \<Rightarrow> stage"
  sceneStage :: "'par stage_args \<Rightarrow> stage"
  groupStage :: "'par stage_args \<Rightarrow> window_group \<Rightarrow> nat \<Rightarrow> stage"

text \<open>
  Modelled from the spec: the stage builders \<^verbatim>\<open>getCommandsSky\<close>,
  \<^verbatim>\<open>getCommandsSceneDaylightCoeff\<close> and \<^verbatim>\<open>getCommandsWGroupsDaylightCoeff\<close> live
  in \<^verbatim>\<open>recipeutil\<close>, which is not part of this source file. The specification gives
  their reuse policy: each returns the commands and the output file names of its
  stage, and a stage's "commands are skipped (but its output files are still
  declared) when \<^verbatim>\<open>reuseMatrix\<close> is true and those output files already exist"; for
  the window groups "the same reuse policy applies independently per (group, state)
  pair".
\<close>

definition emitStage ::
  "(string \<Rightarrow> bool) \<Rightarrow> string \<Rightarrow> bool \<Rightarrow> stage \<Rightarrow> string list \<times> string list"
where
  "emitStage onDisk projectFolder reuse st =
     (if reuse \<and> list_all (\<lambda>f. onDisk (os_path_join projectFolder f)) (stageOutputs st)
      then [] else stageCommands st,
      stageOutputs st)"

definition getCommandsSky ::
  "'par site \<Rightarrow> string \<Rightarrow> sky_matrix \<Rightarrow> bool \<Rightarrow> string list \<times> string list"
where
  "getCommandsSky site projectFolder sky reuse =
     emitStage (fileExists site) projectFolder reuse (skyStage site projectFolder sky)"

definition getCommandsSceneDaylightCoeff ::
  "'par site \<Rightarrow> 'par stage_args \<Rightarrow> bool \<Rightarrow> string list \<times> string list"
where
  "getCommandsSceneDaylightCoeff site args reuse =
     emitStage (fileExists site) (argProjectFolder args) reuse (sceneStage site args)"

text \<open>The stages of the window groups: one for each state of each group, in order.\<close>

definition groupStages :: "'par site \<Rightarrow> 'par stage_args \<Rightarrow> window_group list \<Rightarrow> stage list" where
  "groupStages site args wgs =
     concat (map (\<lambda>wg. map (groupStage site args wg) [0 ..< nat (stateCount wg)]) wgs)"

definition getCommandsWGroupsDaylightCoeff ::
  "'par site \<Rightarrow> 'par stage_args \<Rightarrow> window_group list \<Rightarrow> bool \<Rightarrow> string list \<times> string list"
where
  "getCommandsWGroupsDaylightCoeff site args wgs reuse =
     (let emitted = map (emitStage (fileExists site) (argProjectFolder args) reuse)
                      (groupStages site args wgs)
      in (concat (map fst emitted), concat (map snd emitted)))"

text \<open>
  \<^verbatim>\<open>totalPointCount\<close> is a property of the base class: the number of points of all
  grids together.
\<close>

definition totalPointCount :: "('pt, 'par) recipe \<Rightarrow> nat" where
  "totalPointCount r = sum_list (map len_grid (analysisGrids r))"

text \<open>
  The arguments of a daylight-coefficient builder that \<^verbatim>\<open>write\<close> reads from the
  recipe at the call, together with the local values it passes on.
\<close>

definition builderArgs ::
  "string \<Rightarrow> string \<Rightarrow> string list \<Rightarrow>
   string list \<times> string list \<times> string list \<times> string list \<Rightarrow> string \<Rightarrow>
   ('pt, 'par) recipe \<Rightarrow> 'par stage_args"
where
  "builderArgs projectName projectFolder skyfiles inputfiles pointsFile r =
     \<lparr>argProjectName = projectName, argSkyDensity = skyDensity (skyMatrix r),
      argProjectFolder = projectFolder, argSkyFiles = skyfiles,
      argInputFiles = inputfiles, argPointsFile = pointsFile,
      argTotalPointCount = totalPointCount r,
      argRadianceParameters = radianceParameters r,
      argTotalRunsCount = totalRunsCount r\<rparr>"

text \<open>
  \<^verbatim>\<open>['echo ' + c if c[:2] == '::' else c for c in self._commands]\<close>
\<close>

definition echoComments :: "string list \<Rightarrow> string list" where
  "echoComments cs = map (\<lambda>c. if take 2 c = ''::'' then ''echo '' @ c else c) cs"

text \<open>
  \<^verbatim>\<open>write(targetFolder, projectName, header)\<close>. The result is the path returned,
  the text written to that path, and the recipe with its two accumulators extended
  (\<^verbatim>\<open>append\<close> and \<^verbatim>\<open>extend\<close> on \<^verbatim>\<open>_commands\<close> and \<^verbatim>\<open>_resultFiles\<close>).
  The name \<open>write\<close> is taken in Isabelle, hence \<open>recipe_write\<close>.
\<close>

definition recipe_write ::
  "'par site \<Rightarrow> string \<Rightarrow> string \<Rightarrow> bool \<Rightarrow> ('pt, 'par) recipe \<Rightarrow>
   string \<times> string \<times> ('pt, 'par) recipe"
where
  "recipe_write site targetFolder projectName hdr r =
     (let projectFolder = writeContent site targetFolder projectName;
          (opqfiles, glzfiles, wgsfiles) =
             writeRadFilesDaylightCoeff site (projectFolder @ ''/scene'') projectName;
          extrafiles = writeExtraFiles site (projectFolder @ ''/scene'');
          pointsFile = writeAnalysisGrids site projectFolder projectName;
          r1 = (if hdr then r\<lparr>commands := commands r @ [header site projectFolder]\<rparr> else r);
          (skycommands, skyfiles) = getCommandsSky site projectFolder (skyMatrix r1) True;
          r2 = r1\<lparr>commands := commands r1 @ skycommands\<rparr>;
          inputfiles = (opqfiles, glzfiles, wgsfiles, extrafiles);
          (commands1, results1) =
             getCommandsSceneDaylightCoeff site
               (builderArgs projectName projectFolder skyfiles inputfiles pointsFile r2)
               (reuseDaylightMtx r2);
          r3 = r2\<lparr>commands := commands r2 @ commands1,
                  resultFiles := resultFiles r2 @ map (os_path_join projectFolder) results1\<rparr>;
          (commands2, results2) =
             getCommandsWGroupsDaylightCoeff site
               (builderArgs projectName projectFolder skyfiles inputfiles pointsFile r3)
               (windowGroups r3) (reuseDaylightMtx r3);
          r4 = r3\<lparr>commands := commands r3 @ commands2,
                  resultFiles := resultFiles r3 @ map (os_path_join projectFolder) results2\<rparr>;
          batchFile = os_path_join projectFolder ''commands.bat'';
          cmds = echoComments (commands r4)
      in (batchFile, py_join [CHR 0x0A] (''@echo off'' # cmds), r4))"

text \<open>
  The arguments both daylight-coefficient builders receive in a call of \<^verbatim>\<open>write\<close>
  on the recipe \<open>r\<close>, computed from the site.
\<close>

definition stageArgs ::
  "'par site \<Rightarrow> string \<Rightarrow> string \<Rightarrow> ('pt, 'par) recipe \<Rightarrow> 'par stage_args"
where
  "stageArgs site targetFolder projectName r =
     (let projectFolder = writeContent site targetFolder projectName;
          rad = writeRadFilesDaylightCoeff site (projectFolder @ ''/scene'') projectName
      in builderArgs projectName projectFolder
           (snd (getCommandsSky site projectFolder (skyMatrix r) True))
           (fst rad, fst (snd rad), snd (snd rad),
            writeExtraFiles site (projectFolder @ ''/scene''))
           (writeAnalysisGrids site projectFolder projectName) r)"

text \<open>The recipe as a call of \<^verbatim>\<open>write\<close> leaves it.\<close>

definition recipeAfterWrite ::
  "'par site \<Rightarrow> string \<Rightarrow> string \<Rightarrow> bool \<Rightarrow> ('pt, 'par) recipe \<Rightarrow> ('pt, 'par) recipe"
where
  "recipeAfterWrite site targetFolder projectName hdr r =
     snd (snd (recipe_write site targetFolder projectName hdr r))"

text \<open>The text a call of \<^verbatim>\<open>write\<close> puts into \<^verbatim>\<open>commands.bat\<close>.\<close>

definition scriptWritten ::
  "'par site \<Rightarrow> string \<Rightarrow> string \<Rightarrow> bool \<Rightarrow> ('pt, 'par) recipe \<Rightarrow> string"
where
  "scriptWritten site targetFolder projectName hdr r =
     fst (snd (recipe_write site targetFolder projectName hdr r))"

text \<open>
  The daylight-coefficient stages of one call, in the order of emission: the base
  scene, then every state of every window group.
\<close>

definition daylightStages ::
  "'par site \<Rightarrow> string \<Rightarrow> string \<Rightarrow> ('pt, 'par) recipe \<Rightarrow> stage list"
where
  "daylightStages site targetFolder projectName r =
     (let args = stageArgs site targetFolder projectName r
      in sceneStage site args # groupStages site args (windowGroups r))"

text \<open>A stage is on disk when all its output files exist under the project folder.\<close>

definition stageOnDisk :: "'par site \<Rightarrow> string \<Rightarrow> stage \<Rightarrow> bool" where
  "stageOnDisk site projectFolder st =
     list_all (\<lambda>f. fileExists site (os_path_join projectFolder f)) (stageOutputs st)"

text \<open>
  What one call of \<^verbatim>\<open>write\<close> is to add to the command list: the header when
  asked for, the commands of the sky stage unless its files are on disk, and the
  commands of each daylight-coefficient stage unless the recipe reuses matrices and
  the stage's files are on disk.
\<close>

definition emittedCommands ::
  "'par site \<Rightarrow> string \<Rightarrow> string \<Rightarrow> bool \<Rightarrow> ('pt, 'par) recipe \<Rightarrow> string list"
where
  "emittedCommands site targetFolder projectName hdr r =
     (let projectFolder = writeContent site targetFolder projectName
      in (if hdr then [header site projectFolder] else []) @
         fst (getCommandsSky site projectFolder (skyMatrix r) True) @
         concat (map (\<lambda>st. if reuseDaylightMtx r \<and> stageOnDisk site projectFolder st
                            then [] else stageCommands st)
                   (daylightStages site targetFolder projectName r)))"

text \<open>
  What one call of \<^verbatim>\<open>write\<close> is to add to the result-file manifest: the output
  files of every daylight-coefficient stage, under the project folder.
\<close>

definition declaredFiles ::
  "'par site \<Rightarrow> string \<Rightarrow> string \<Rightarrow> ('pt, 'par) recipe \<Rightarrow> string list"
where
  "declaredFiles site targetFolder projectName r =
     map (os_path_join (writeContent site targetFolder projectName))
       (concat (map stageOutputs (daylightStages site targetFolder projectName r)))"

subsection \<open>A small configuration\<close>

text \<open>
  Two grids of two and three points, a climate-based sky matrix, two window groups
  with three and two states, and one result file. It is used to run the definitions
  on concrete inputs.
\<close>

definition demoGrids :: "unit analysis_grid list" where
  "demoGrids =
     [\<lparr>gridName = ''room_a'', analysisPoints = [(), ()], gridValues = []\<rparr>,
      \<lparr>gridName = ''room_b'', analysisPoints = [(), (), ()], gridValues = []\<rparr>]"

definition demoSky :: sky_matrix where
  "demoSky =
     \<lparr>skyName = ''skymtx_r2'', isPointInTime = False, isClimateBased = True,
      skyDensity = 2, skyType = 0, hoys = [8, 9, 10]\<rparr>"

definition demoRecipe :: "(unit, unit) recipe" where
  "demoRecipe =
     \<lparr>skyMatrix = demoSky, simType = 0, analysisGrids = demoGrids,
      windowGroups = [\<lparr>groupName = ''south'', stateCount = 3\<rparr>,
                      \<lparr>groupName = ''roof'', stateCount = 2\<rparr>],
      radianceParameters = (), reuseDaylightMtx = True,
      commands = [], resultFiles = [], isCalculated = False\<rparr>"

definition demoFile :: string where
  "demoFile = ''/sim/office/result/office..scene..default.ill''"

text \<open>The recipe after a run that produced \<open>demoFile\<close>.\<close>

definition demoRun :: "(unit, unit) recipe" where
  "demoRun = demoRecipe\<lparr>resultFiles := [demoFile], isCalculated := True\<rparr>"

text \<open>A file system that holds one file with the given data lines.\<close>

definition oneFile :: "string \<Rightarrow> string list \<Rightarrow> string \<Rightarrow> string list" where
  "oneFile path lines p = (if p = path then lines else [])"

text \<open>A result file whose name has nothing before the first pair of dots.\<close>

definition demoEmptySourceFile :: string where
  "demoEmptySourceFile = ''/sim/office/result/..default.ill''"

text \<open>A result file named with single dots.\<close>

definition demoBadFile :: string where
  "demoBadFile = ''/sim/office/result/office.scene.default.ill''"

text \<open>The same recipe with a sky that is not climate-based.\<close>

definition demoPlainSky :: "(unit, unit) recipe" where
  "demoPlainSky = demoRecipe\<lparr>skyMatrix := demoSky\<lparr>isClimateBased := False\<rparr>\<rparr>"

definition demoLines :: "string list" where
  "demoLines = [''10 11 12'', ''20 21 22'', ''30 31 32'', ''40 41 42'', ''50 51 52'']"

text \<open>
  A site for the small configuration: the result of the base scene is on disk, the
  sky matrix and the results of the window groups are not.
\<close>

definition demoSite :: "unit site" where
  "demoSite =
     \<lparr>writeContent = (\<lambda>target name. target @ ''/'' @ name),
      writeRadFilesDaylightCoeff =
        (\<lambda>folder name. ([folder @ ''/'' @ name @ ''.opq''], [folder @ ''/'' @ name @ ''.glz''], [])),
      writeExtraFiles = (\<lambda>folder. []),
      writeAnalysisGrids = (\<lambda>folder name. folder @ ''/'' @ name @ ''.pts''),
      header = (\<lambda>folder. ''cd '' @ folder),
      fileExists = (\<lambda>p. p = ''/sim/office/result/office..scene..default.ill''),
      skyStage = (\<lambda>folder sky.
        \<lparr>stageCommands = ['':: sky matrix'', ''gendaymtx '' @ skyName sky],
         stageOutputs = [''sky/'' @ skyName sky @ ''.smx'']\<rparr>),
      sceneStage = (\<lambda>args.
        \<lparr>stageCommands = [''rfluxmtx scene''],
         stageOutputs = [''result/'' @ argProjectName args @ ''..scene..default.ill'']\<rparr>),
      groupStage = (\<lambda>args wg n.
        \<lparr>stageCommands = [''rfluxmtx '' @ groupName wg @ '' '' @ show_nat n],
         stageOutputs = [''result/'' @ argProjectName args @ ''..'' @ groupName wg @ ''..''
                           @ show_nat n @ ''.ill'']\<rparr>)\<rparr>"

text \<open>The same site with the sky matrix on disk and nothing else.\<close>

definition demoSkySite :: "unit site" where
  "demoSkySite = demoSite\<lparr>fileExists := (\<lambda>p. p = ''/sim/office/sky/skymtx_r2.smx'')\<rparr>"

section \<open>Properties\<close>

subsection \<open>Run count\<close>

lemma foldl_plus_shift: "foldl (+) (a::int) xs = a + sum_list xs"
  by (induction xs arbitrary: a) simp_all

lemma py_sum_sum_list: "py_sum xs = sum_list xs"
  by (simp add: py_sum_def foldl_plus_shift)

text \<open>
  Claim C1. For every recipe, whatever its window groups and the rest of its state,
  \<open>totalRunsCount\<close> is one (the base case) plus the sum of the state counts of its
  window groups. It is a function of the recipe alone and returns only the number:
  reading it leaves the recipe as it is.
\<close>

theorem totalRunsCount_sum:
  "totalRunsCount r = 1 + (\<Sum>wg\<leftarrow>windowGroups r. stateCount wg)"
  by (simp add: totalRunsCount_def py_sum_sum_list)

text \<open>Window groups of three and of two states give six runs.\<close>

theorem totalRunsCount_sum_witness: "totalRunsCount demoRecipe = 6"
  using totalRunsCount_sum [of demoRecipe] by (simp add: demoRecipe_def)

subsection \<open>Parsing result file names\<close>

lemma split_dotdot_from_nonempty: "split_dotdot_from seg s \<noteq> []"
  by (induction seg s rule: split_dotdot_from.induct) simp_all

lemma split_dotdot_nonempty: "split_dotdot s \<noteq> []"
  by (simp add: split_dotdot_def split_dotdot_from_nonempty)

lemma split_dotdot_from_two:
  "2 \<le> length (split_dotdot_from seg (u @ ''..'' @ v))"
proof (induction seg u rule: split_dotdot_from.induct)
  case (1 seg c d cs)
  have "1 \<le> length (split_dotdot_from [] (cs @ ''..'' @ v))"
    using split_dotdot_from_nonempty [of "[]" "cs @ ''..'' @ v"]
    by (cases "split_dotdot_from [] (cs @ ''..'' @ v)") simp_all
  with 1 show ?case by simp
next
  case (2 seg c)
  have "1 \<le> length (split_dotdot_from [] (CHR ''.'' # v))"
    using split_dotdot_from_nonempty [of "[]" "CHR ''.'' # v"]
    by (cases "split_dotdot_from [] (CHR ''.'' # v)") simp_all
  moreover have "1 \<le> length (split_dotdot_from [] v)"
    using split_dotdot_from_nonempty [of "[]" v]
    by (cases "split_dotdot_from [] v") simp_all
  ultimately show ?case by simp
next
  case (3 seg)
  have "1 \<le> length (split_dotdot_from [] v)"
    using split_dotdot_from_nonempty [of "[]" v]
    by (cases "split_dotdot_from [] v") simp_all
  then show ?case by simp
qed

lemma split_dotdot_from_two_occurs:
  "2 \<le> length (split_dotdot_from seg s) \<Longrightarrow> \<exists>u v. s = u @ ''..'' @ v"
proof (induction seg s rule: split_dotdot_from.induct)
  case (1 seg c d cs)
  show ?case
  proof (cases "c = CHR ''.'' \<and> d = CHR ''.''")
    case True
    then have "c # d # cs = [] @ ''..'' @ cs" by simp
    then show ?thesis by blast
  next
    case False
    with 1 obtain u v where "d # cs = u @ ''..'' @ v" by auto
    then have "c # d # cs = (c # u) @ ''..'' @ v" by simp
    then show ?thesis by blast
  qed
qed simp_all

lemma split_dotdot_segments_iff:
  "2 \<le> length (split_dotdot s) \<longleftrightarrow> (\<exists>u v. s = u @ ''..'' @ v)"
  unfolding split_dotdot_def
  using split_dotdot_from_two split_dotdot_from_two_occurs by blast

lemma split_dotdot_from_plain:
  "CHR ''.'' \<notin> set s \<Longrightarrow> split_dotdot_from seg s = [rev seg @ s]"
  by (induction seg s rule: split_dotdot_from.induct) auto

lemma split_dotdot_from_append:
  "p = [] \<or> last p \<noteq> CHR ''.'' \<Longrightarrow>
   split_dotdot_from seg (p @ ''..'' @ rest) = split_dotdot_from seg p @ split_dotdot_from [] rest"
proof (induction seg p rule: split_dotdot_from.induct)
  case (1 seg c d cs)
  then have cs: "cs = [] \<longrightarrow> d \<noteq> CHR ''.''" and l: "cs \<noteq> [] \<longrightarrow> last cs \<noteq> CHR ''.''"
    by auto
  show ?case
  proof (cases "c = CHR ''.'' \<and> d = CHR ''.''")
    case True
    with cs l have "cs = [] \<or> last cs \<noteq> CHR ''.''" by auto
    from "1.IH"(1) [OF True this] True show ?thesis by simp
  next
    case False
    have "d # cs = [] \<or> last (d # cs) \<noteq> CHR ''.''" using cs l by auto
    from "1.IH"(2) [OF False this] False show ?thesis by auto
  qed
next
  case (2 seg c)
  then show ?case by simp
next
  case (3 seg)
  then show ?case by simp
qed

lemma split_dotdot_triple:
  assumes "p = [] \<or> last p \<noteq> CHR ''.''" "CHR ''.'' \<notin> set source" "CHR ''.'' \<notin> set state"
  shows "split_dotdot (p @ ''..'' @ source @ ''..'' @ state) = split_dotdot p @ [source, state]"
proof -
  have s: "source = [] \<or> last source \<noteq> CHR ''.''"
    using assms(2) by (cases "source = []") (auto dest: last_in_set)
  have "split_dotdot_from [] (source @ ''..'' @ state) = [source, state]"
    using split_dotdot_from_append [OF s, of "[]" state]
    by (simp add: split_dotdot_from_plain assms)
  then show ?thesis
    using split_dotdot_from_append [OF assms(1), of "[]" "source @ ''..'' @ state"]
    by (simp add: split_dotdot_def)
qed

lemma takeWhile_no_slash:
  "CHR ''/'' \<notin> set b \<Longrightarrow> takeWhile (\<lambda>c. c \<noteq> CHR ''/'') (rev b @ rest)
     = rev b @ takeWhile (\<lambda>c. c \<noteq> CHR ''/'') rest"
  by (rule takeWhile_append2) auto

lemma path_tail_append:
  "CHR ''/'' \<notin> set b \<Longrightarrow> path_tail (d @ ''/'' @ b) = b"
  using takeWhile_no_slash [of b "CHR ''/'' # rev d"] by (simp add: path_tail_def)

lemma path_tail_plain:
  "CHR ''/'' \<notin> set b \<Longrightarrow> path_tail b = b"
proof -
  assume "CHR ''/'' \<notin> set b"
  then have "takeWhile (\<lambda>c. c \<noteq> CHR ''/'') (rev b) = rev b"
    by (subst takeWhile_eq_all_conv) auto
  then show ?thesis by (simp only: path_tail_def rev_rev_ident)
qed

lemma drop_last4_append:
  "length suffix = 4 \<Longrightarrow> drop_last4 (stem @ suffix) = stem"
  by (simp add: drop_last4_def)

lemma fileSourceState_segments:
  "fileSourceState rf =
     (if 2 \<le> length (fileNameSegments rf)
      then Inr (fileNameSegments rf ! (length (fileNameSegments rf) - 2),
                last (fileNameSegments rf))
      else Inl IndexError)"
proof -
  have ne: "fileNameSegments rf \<noteq> []"
    by (simp add: fileNameSegments_def split_dotdot_nonempty)
  then have "1 \<le> length (fileNameSegments rf)"
    by (cases "fileNameSegments rf") simp_all
  then show ?thesis
    using ne
    by (auto simp add: fileSourceState_def py_item_def Let_def last_conv_nth nat_diff_distrib' nat_add_distrib
        intro!: arg_cong [where f = "nth (fileNameSegments rf)"])
qed

lemma mergeFiles_malformed:
  "rf \<in> set rfs \<Longrightarrow> length (fileNameSegments rf) < 2 \<Longrightarrow>
   mergeFiles fd hs rfs gs = Inl IndexError"
proof (induction rfs arbitrary: gs)
  case Nil
  then show ?case by simp
next
  case (Cons a rfs)
  show ?case
  proof (cases "2 \<le> length (fileNameSegments a)")
    case False
    then show ?thesis by (simp add: fileSourceState_segments)
  next
    case True
    with Cons.prems have "rf \<in> set rfs" by auto
    from Cons.IH [OF this Cons.prems(2)] True show ?thesis
      by (simp add: fileSourceState_segments)
  qed
qed

lemma mergeFiles_wellformed:
  "\<forall>rf \<in> set rfs. 2 \<le> length (fileNameSegments rf) \<Longrightarrow>
   \<exists>gs'. mergeFiles fd hs rfs gs = Inr gs'"
proof (induction rfs arbitrary: gs)
  case Nil
  then show ?case by simp
next
  case (Cons a rfs)
  then show ?case by (simp add: fileSourceState_segments)
qed

subsection \<open>Loading grids at their offsets\<close>

lemma len_grid_setValues [simp]:
  "len_grid (setValuesFromFile g lines hs source state n) = len_grid g"
  by (simp add: setValuesFromFile_def len_grid_def)

lemma gridName_setValues [simp]:
  "gridName (setValuesFromFile g lines hs source state n) = gridName g"
  by (simp add: setValuesFromFile_def)

lemma analysisPoints_setValues [simp]:
  "analysisPoints (setValuesFromFile g lines hs source state n) = analysisPoints g"
  by (simp add: setValuesFromFile_def)

lemma values_setValues_same:
  "map_of (gridValues (setValuesFromFile g lines hs source state n)) (source, state)
     = Some (take (len_grid g) (drop n lines))"
  by (simp add: setValuesFromFile_def update_conv')

lemma values_setValues_other:
  "key \<noteq> (source, state) \<Longrightarrow>
   map_of (gridValues (setValuesFromFile g lines hs source state n)) key
     = map_of (gridValues g) key"
  by (simp add: setValuesFromFile_def update_conv')

lemma length_placeGrids [simp]:
  "length (placeGrids lines hs source state off gs) = length gs"
  by (induction gs arbitrary: off) simp_all

lemma placeGrids_nth:
  "k < length gs \<Longrightarrow>
   placeGrids lines hs source state off gs ! k
     = setValuesFromFile (gs ! k) lines hs source state
         (off + sum_list (map len_grid (take k gs)))"
proof (induction gs arbitrary: off k)
  case Nil
  then show ?case by simp
next
  case (Cons g gs)
  show ?case
  proof (cases k)
    case 0
    then show ?thesis by simp
  next
    case (Suc j)
    with Cons.prems have "j < length gs" by simp
    from Cons.IH [OF this, of "off + len_grid g"] Suc show ?thesis
      by (simp add: add.assoc)
  qed
qed

lemma loadGrids_done:
  "length gs \<le> count \<Longrightarrow> loadGrids lines hs source state count startLine gs = gs"
  by simp

lemma loadGrids_step:
  "count < length gs \<Longrightarrow>
   loadGrids lines hs source state count startLine gs =
     loadGrids lines hs source state (Suc count)
       (if count \<noteq> 0 then startLine + len_grid (gs ! (count - 1)) else startLine)
       (gs[count := setValuesFromFile (gs ! count) lines hs source state
          (if count \<noteq> 0 then startLine + len_grid (gs ! (count - 1)) else startLine)])"
  by (subst loadGrids.simps) (simp add: Let_def)

declare loadGrids.simps [simp del]

lemma loadGrids_place:
  "count \<le> length gs \<Longrightarrow>
   loadGrids lines hs source state count startLine gs =
     take count gs @
     placeGrids lines hs source state
       (if count \<noteq> 0 then startLine + len_grid (gs ! (count - 1)) else startLine)
       (drop count gs)"
proof (induction lines hs source state count startLine gs rule: loadGrids.induct)
  case (1 lines hs source state count startLine gs)
  show ?case
  proof (cases "count < length gs")
    case False
    with "1.prems" have "count = length gs" by simp
    then show ?thesis by (simp add: loadGrids.simps)
  next
    case True
    define off where
      "off = (if count \<noteq> 0 then startLine + len_grid (gs ! (count - 1)) else startLine)"
    define g' where "g' = setValuesFromFile (gs ! count) lines hs source state off"
    have step: "loadGrids lines hs source state count startLine gs =
      loadGrids lines hs source state (Suc count) off (gs[count := g'])"
      using loadGrids_step [OF True] by (simp add: off_def g'_def)
    have len: "Suc count \<le> length (gs[count := g'])" using True by simp
    have IH: "loadGrids lines hs source state (Suc count) off (gs[count := g']) =
      take (Suc count) (gs[count := g']) @ placeGrids lines hs source state
        (off + len_grid ((gs[count := g']) ! count)) (drop (Suc count) (gs[count := g']))"
      using "1.IH" [OF True refl] len by (simp add: off_def g'_def)
    have a: "take (Suc count) (gs[count := g']) = take count gs @ [g']"
      using True by (simp add: take_Suc_conv_app_nth)
    have b: "drop (Suc count) (gs[count := g']) = drop (Suc count) gs"
      by simp
    have c: "len_grid ((gs[count := g']) ! count) = len_grid (gs ! count)"
      using True by (simp add: g'_def)
    have d: "drop count gs = gs ! count # drop (Suc count) gs"
      using True by (simp add: Cons_nth_drop_Suc)
    show ?thesis
      unfolding step IH a b c
      by (subst d) (simp add: off_def g'_def)
  qed
qed

lemma loadGrids_from_start:
  "loadGrids lines hs source state 0 0 gs = placeGrids lines hs source state 0 gs"
  using loadGrids_place [of 0 gs lines hs source state 0] by simp

lemma loadGrids_nth:
  "k < length gs \<Longrightarrow>
   loadGrids lines hs source state 0 0 gs ! k =
     setValuesFromFile (gs ! k) lines hs source state (sum_list (map len_grid (take k gs)))"
  by (simp add: loadGrids_from_start placeGrids_nth)

lemma length_loadGrids [simp]:
  "length (loadGrids lines hs source state 0 0 gs) = length gs"
  by (simp add: loadGrids_from_start)

lemma map_len_loadGrids [simp]:
  "map len_grid (loadGrids lines hs source state 0 0 gs) = map len_grid gs"
  by (rule nth_equalityI) (simp_all add: loadGrids_nth)

lemma map_name_loadGrids [simp]:
  "map gridName (loadGrids lines hs source state 0 0 gs) = map gridName gs"
  by (rule nth_equalityI) (simp_all add: loadGrids_nth)

lemma map_points_loadGrids [simp]:
  "map analysisPoints (loadGrids lines hs source state 0 0 gs) = map analysisPoints gs"
  by (rule nth_equalityI) (simp_all add: loadGrids_nth)

lemma mergeFiles_frame:
  "mergeFiles fd hs rfs gs = Inr gs' \<Longrightarrow>
   map len_grid gs' = map len_grid gs \<and> map gridName gs' = map gridName gs \<and>
   map analysisPoints gs' = map analysisPoints gs"
proof (induction rfs arbitrary: gs)
  case Nil
  then show ?case by simp
next
  case (Cons rf rfs)
  from Cons.prems obtain source state where
    p: "fileSourceState rf = Inr (source, state)" and
    m: "mergeFiles fd hs rfs (loadGrids (fd rf) hs source state 0 0 gs) = Inr gs'"
    by (auto split: sum.splits)
  from Cons.IH [OF m] show ?case by simp
qed

lemma mergeFiles_length:
  "mergeFiles fd hs rfs gs = Inr gs' \<Longrightarrow> length gs' = length gs"
  using mergeFiles_frame [of fd hs rfs gs gs'] by (metis length_map)

lemma mergeFiles_untouched:
  "mergeFiles fd hs rfs gs = Inr gs' \<Longrightarrow>
   \<forall>rf \<in> set rfs. fileSourceState rf \<noteq> Inr key \<Longrightarrow> k < length gs \<Longrightarrow>
   map_of (gridValues (gs' ! k)) key = map_of (gridValues (gs ! k)) key"
proof (induction rfs arbitrary: gs)
  case Nil
  then show ?case by simp
next
  case (Cons rf rfs)
  from Cons.prems(1) obtain source state where
    p: "fileSourceState rf = Inr (source, state)" and
    m: "mergeFiles fd hs rfs (loadGrids (fd rf) hs source state 0 0 gs) = Inr gs'"
    by (auto split: sum.splits)
  from Cons.prems(2) p have ne: "key \<noteq> (source, state)" by auto
  have "map_of (gridValues (gs' ! k)) key =
        map_of (gridValues (loadGrids (fd rf) hs source state 0 0 gs ! k)) key"
    using Cons.IH [OF m] Cons.prems by simp
  also have "\<dots> = map_of (gridValues (gs ! k)) key"
    using Cons.prems(3) ne by (simp add: loadGrids_nth values_setValues_other)
  finally show ?case .
qed

lemma mergeFiles_offsets:
  "mergeFiles fd hs rfs gs = Inr gs' \<Longrightarrow> i < length rfs \<Longrightarrow>
   fileSourceState (rfs ! i) = Inr (source, state) \<Longrightarrow>
   \<forall>j. i < j \<and> j < length rfs \<longrightarrow> fileSourceState (rfs ! j) \<noteq> Inr (source, state) \<Longrightarrow>
   k < length gs \<Longrightarrow>
   map_of (gridValues (gs' ! k)) (source, state) =
     Some (take (len_grid (gs ! k))
            (drop (sum_list (map len_grid (take k gs))) (fd (rfs ! i))))"
proof (induction rfs arbitrary: gs i)
  case Nil
  then show ?case by simp
next
  case (Cons rf rfs)
  from Cons.prems(1) obtain s t where
    p: "fileSourceState rf = Inr (s, t)" and
    m: "mergeFiles fd hs rfs (loadGrids (fd rf) hs s t 0 0 gs) = Inr gs'"
    by (auto split: sum.splits)
  let ?gs1 = "loadGrids (fd rf) hs s t 0 0 gs"
  show ?case
  proof (cases i)
    case 0
    with Cons.prems(3) p have st: "s = source" "t = state" by simp_all
    have later: "\<forall>rf' \<in> set rfs. fileSourceState rf' \<noteq> Inr (source, state)"
    proof
      fix rf' assume "rf' \<in> set rfs"
      then obtain j where "j < length rfs" "rfs ! j = rf'" by (auto simp: in_set_conv_nth)
      with Cons.prems(4) [rule_format, of "Suc j"] 0
      show "fileSourceState rf' \<noteq> Inr (source, state)" by simp
    qed
    have "map_of (gridValues (gs' ! k)) (source, state) =
          map_of (gridValues (?gs1 ! k)) (source, state)"
      using mergeFiles_untouched [OF m later] Cons.prems(5) by simp
    also have "\<dots> = Some (take (len_grid (gs ! k))
            (drop (sum_list (map len_grid (take k gs))) (fd rf)))"
      using Cons.prems(5) st by (simp add: loadGrids_nth values_setValues_same)
    finally show ?thesis using 0 by simp
  next
    case (Suc i')
    have i': "i' < length rfs" using Cons.prems(2) Suc by simp
    have key: "fileSourceState (rfs ! i') = Inr (source, state)"
      using Cons.prems(3) Suc by simp
    have later: "\<forall>j. i' < j \<and> j < length rfs \<longrightarrow> fileSourceState (rfs ! j) \<noteq> Inr (source, state)"
    proof (intro allI impI)
      fix j assume "i' < j \<and> j < length rfs"
      with Cons.prems(4) [rule_format, of "Suc j"] Suc
      show "fileSourceState (rfs ! j) \<noteq> Inr (source, state)" by simp
    qed
    have k1: "k < length ?gs1" using Cons.prems(5) by simp
    have lens: "len_grid (?gs1 ! k) = len_grid (gs ! k)"
      using Cons.prems(5) by (simp add: loadGrids_nth)
    have sums: "map len_grid (take k ?gs1) = map len_grid (take k gs)"
      by (simp add: take_map [symmetric])
    from Cons.IH [OF m i' key later k1] show ?thesis
      using Suc by (simp add: lens sums)
  qed
qed

subsection \<open>Facts about the small configuration\<close>

lemma demoFile_parsed: "fileSourceState demoFile = Inr (''scene'', ''default'')"
  by (simp add: demoFile_def fileSourceState_def fileNameSegments_def
      path_tail_def drop_last4_def split_dotdot_def py_item_def)

lemma demoFile_segments: "fileNameSegments demoFile = [''office'', ''scene'', ''default'']"
  by (simp add: demoFile_def fileNameSegments_def path_tail_def drop_last4_def split_dotdot_def)

lemma demoBadFile_segments: "fileNameSegments demoBadFile = [''office.scene.default'']"
  by (simp add: demoBadFile_def fileNameSegments_def path_tail_def drop_last4_def split_dotdot_def)

lemma demoRun_results:
  "results (oneFile demoFile ls) demoRun =
     Inr [\<lparr>gridName = ''room_a'', analysisPoints = [(), ()],
            gridValues = [((''scene'', ''default''), take 2 ls)]\<rparr>,
          \<lparr>gridName = ''room_b'', analysisPoints = [(), (), ()],
            gridValues = [((''scene'', ''default''), take 3 (drop 2 ls))]\<rparr>]"
  by (simp add: results_def demoRun_def demoRecipe_def demoGrids_def demoSky_def demoFile_def
      fileSourceState_def fileNameSegments_def path_tail_def drop_last4_def split_dotdot_def
      py_item_def loadGrids_from_start setValuesFromFile_def len_grid_def oneFile_def
      numeral_2_eq_2 numeral_3_eq_3)

subsection \<open>Auxiliary facts about the merge\<close>

lemma sum_list_take_nth_le:
  "k < length xs \<Longrightarrow> sum_list (take k xs) + xs ! k \<le> sum_list (xs :: nat list)"
proof -
  assume k: "k < length xs"
  have "sum_list xs = sum_list (take (Suc k) xs) + sum_list (drop (Suc k) xs)"
    by (metis append_take_drop_id sum_list_append)
  moreover have "sum_list (take (Suc k) xs) = sum_list (take k xs) + xs ! k"
    using k by (simp add: take_Suc_conv_app_nth)
  ultimately show ?thesis by simp
qed

lemma mergeFiles_error: "mergeFiles fd hs rfs gs = Inl e \<Longrightarrow> e = IndexError"
proof (induction rfs arbitrary: gs)
  case Nil
  then show ?case by simp
next
  case (Cons a rfs)
  then show ?case
    by (cases "2 \<le> length (fileNameSegments a)") (auto simp add: fileSourceState_segments)
qed

subsection \<open>The offset law\<close>

text \<open>
  Claim C4. Take a recipe that has been run and whose result file names are well
  formed, a result file of its manifest that parses to \<open>(source, state)\<close> and is the
  last file of the manifest with that pair, and a grid number \<open>k\<close>. Then
  \<^verbatim>\<open>results\<close> returns, and the values grid \<open>k\<close> holds for \<open>(source, state)\<close> are
  the \<^verbatim>\<open>len(grid k)\<close> consecutive data lines of that file that start at the line
  whose number is the sum of the sizes of the grids declared before \<open>k\<close> (as many of
  them as the file has). For two grids of sizes \<open>N1\<close> and \<open>N2\<close> the second grid is
  read from line \<open>N1\<close>: the offset of grid \<open>1\<close> is \<open>len_grid\<close> of grid \<open>0\<close>. The
  lemma \<open>loadGrids_nth\<close> is the same fact for the inner loop alone: grid \<open>k\<close> is
  loaded with that start line, for every list of grids and every file.
\<close>

theorem results_grid_offsets:
  assumes "isCalculated r"
    and "\<forall>rf \<in> set (resultFiles r). 2 \<le> length (fileNameSegments rf)"
    and "i < length (resultFiles r)"
    and "fileSourceState (resultFiles r ! i) = Inr (source, state)"
    and "\<forall>j. i < j \<and> j < length (resultFiles r) \<longrightarrow>
           fileSourceState (resultFiles r ! j) \<noteq> Inr (source, state)"
    and "k < length (analysisGrids r)"
  shows "\<exists>gs'. results fd r = Inr gs' \<and>
           map_of (gridValues (gs' ! k)) (source, state) =
             Some (take (len_grid (analysisGrids r ! k))
                    (drop (sum_list (map len_grid (take k (analysisGrids r))))
                       (fd (resultFiles r ! i))))"
proof -
  from mergeFiles_wellformed [OF assms(2)] obtain gs' where
    m: "mergeFiles fd (hoys (skyMatrix r)) (resultFiles r) (analysisGrids r) = Inr gs'"
    by blast
  with assms(1) have "results fd r = Inr gs'" by (simp add: results_def)
  with mergeFiles_offsets [OF m assms(3-6)] show ?thesis by blast
qed

theorem results_grid_offsets_witness:
  "\<exists>gs'. results (oneFile demoFile demoLines) demoRun = Inr gs' \<and>
     map_of (gridValues (gs' ! 1)) (''scene'', ''default'')
       = Some [''30 31 32'', ''40 41 42'', ''50 51 52'']"
proof -
  have c: "isCalculated demoRun" by (simp add: demoRun_def)
  have w: "\<forall>rf \<in> set (resultFiles demoRun). 2 \<le> length (fileNameSegments rf)"
    by (simp add: demoRun_def demoFile_segments)
  have f: "fileSourceState (resultFiles demoRun ! 0) = Inr (''scene'', ''default'')"
    by (simp add: demoRun_def demoFile_parsed)
  have n: "0 < length (resultFiles demoRun)" "1 < length (analysisGrids demoRun)"
    by (simp_all add: demoRun_def demoRecipe_def demoGrids_def)
  have l: "\<forall>j. 0 < j \<and> j < length (resultFiles demoRun) \<longrightarrow>
           fileSourceState (resultFiles demoRun ! j) \<noteq> Inr (''scene'', ''default'')"
    by (simp add: demoRun_def)
  from results_grid_offsets [where fd = "oneFile demoFile demoLines", OF c w n(1) f l n(2)]
  obtain gs' where r: "results (oneFile demoFile demoLines) demoRun = Inr gs'"
    and v: "map_of (gridValues (gs' ! 1)) (''scene'', ''default'') =
             Some (take (len_grid (analysisGrids demoRun ! 1))
                    (drop (sum_list (map len_grid (take 1 (analysisGrids demoRun))))
                       (oneFile demoFile demoLines (resultFiles demoRun ! 0))))"
    by blast
  from v have "map_of (gridValues (gs' ! 1)) (''scene'', ''default'')
          = Some [''30 31 32'', ''40 41 42'', ''50 51 52'']"
    by (simp add: demoRun_def demoRecipe_def demoGrids_def len_grid_def oneFile_def
        demoLines_def)
  with r show ?thesis by (intro exI [of _ gs']) simp
qed

subsection \<open>Malformed file names\<close>

text \<open>
  The segments of a file name are what \<^verbatim>\<open>split("..")\<close> makes of the base name
  without its last four characters; there are fewer than two exactly when that stem
  has no two adjacent dots.
\<close>

lemma fileNameSegments_single_iff:
  "length (fileNameSegments rf) < 2 \<longleftrightarrow> (\<nexists>u v. drop_last4 (path_tail rf) = u @ ''..'' @ v)"
  using split_dotdot_segments_iff [of "drop_last4 (path_tail rf)"]
  by (simp add: fileNameSegments_def not_le [symmetric])

text \<open>
  Splitting at \<^verbatim>\<open>".."\<close> loses nothing and leaves no pair of dots inside a piece:
  the pieces joined again with \<^verbatim>\<open>".."\<close> are the string that was split.
\<close>

lemma has_dotdot_occurs: "has_dotdot s \<Longrightarrow> \<exists>u v. s = u @ ''..'' @ v"
proof (induction s rule: has_dotdot.induct)
  case (1 c d cs)
  show ?case
  proof (cases "c = CHR ''.'' \<and> d = CHR ''.''")
    case True
    then have "c # d # cs = [] @ ''..'' @ cs" by simp
    then show ?thesis by blast
  next
    case False
    with 1 obtain u v where "d # cs = u @ ''..'' @ v" by auto
    then have "c # d # cs = (c # u) @ ''..'' @ v" by simp
    then show ?thesis by blast
  qed
qed simp_all

lemma occurs_has_dotdot: "has_dotdot (u @ ''..'' @ v)"
proof (induction u)
  case Nil
  show ?case by simp
next
  case (Cons a u)
  then show ?case by (cases "u @ ''..'' @ v") auto
qed

lemma has_dotdot_iff: "has_dotdot s \<longleftrightarrow> (\<exists>u v. s = u @ ''..'' @ v)"
  using has_dotdot_occurs occurs_has_dotdot by blast

lemma has_dotdot_snoc:
  "has_dotdot (w @ [d]) \<longleftrightarrow>
     has_dotdot w \<or> (w \<noteq> [] \<and> last w = CHR ''.'' \<and> d = CHR ''.'')"
  by (induction w rule: has_dotdot.induct) auto

lemma segments_no_dotdot:
  "\<not> has_dotdot (rev seg @ take 1 s) \<Longrightarrow> x \<in> set (split_dotdot_from seg s) \<Longrightarrow>
   \<not> has_dotdot x"
proof (induction seg s rule: split_dotdot_from.induct)
  case (1 seg c d cs)
  from "1.prems"(1) have a: "\<not> has_dotdot (rev seg @ [c])" by simp
  show ?case
  proof (cases "c = CHR ''.'' \<and> d = CHR ''.''")
    case True
    have b: "\<not> has_dotdot (rev [] @ take 1 cs)" by (cases cs) simp_all
    from a have "\<not> has_dotdot (rev seg)" by (simp add: has_dotdot_snoc)
    with "1.IH"(1) [OF True b] "1.prems"(2) True show ?thesis by auto
  next
    case False
    from a False have "\<not> has_dotdot ((rev seg @ [c]) @ [d])"
      by (subst has_dotdot_snoc) auto
    then have b: "\<not> has_dotdot (rev (c # seg) @ take 1 (d # cs))" by simp
    from "1.IH"(2) [OF False b] "1.prems"(2) False show ?thesis by auto
  qed
next
  case (2 seg c)
  then show ?case by simp
next
  case (3 seg)
  then show ?case by simp
qed

lemma split_dotdot_no_dotdot: "x \<in> set (split_dotdot s) \<Longrightarrow> \<not> has_dotdot x"
proof -
  assume x: "x \<in> set (split_dotdot s)"
  have "\<not> has_dotdot (rev [] @ take 1 s)" by (cases s) simp_all
  from segments_no_dotdot [OF this] x show ?thesis by (simp add: split_dotdot_def)
qed

lemma py_join_Cons: "xs \<noteq> [] \<Longrightarrow> py_join sep (x # xs) = x @ sep @ py_join sep xs"
  by (cases xs) simp_all

lemma py_join_split_from: "py_join ''..'' (split_dotdot_from seg s) = rev seg @ s"
  by (induction seg s rule: split_dotdot_from.induct)
    (simp_all add: py_join_Cons split_dotdot_from_nonempty)

lemma py_join_split: "py_join ''..'' (split_dotdot s) = s"
  by (simp add: split_dotdot_def py_join_split_from)

lemma py_join_last_two:
  "py_join sep (ys @ [a, b]) = (if ys = [] then [] else py_join sep ys @ sep) @ a @ sep @ b"
proof (induction ys)
  case Nil
  show ?case by simp
next
  case (Cons y ys)
  then show ?case by (cases ys) (simp_all add: py_join_Cons)
qed

lemma last_two: "2 \<le> length l \<Longrightarrow> \<exists>ys a b. l = ys @ [a, b]"
proof -
  assume "2 \<le> length l"
  then obtain l' b where 1: "l = l' @ [b]" and "1 \<le> length l'"
    by (cases l rule: rev_cases) auto
  then obtain ys a where "l' = ys @ [a]" by (cases l' rule: rev_cases) auto
  with 1 show ?thesis by simp
qed

text \<open>
  Claim C6 as stated does not hold for every name that lacks a source or a state.
  The file below is named \<^verbatim>\<open>..default.ill\<close>: nothing stands where the source
  should be. \<^verbatim>\<open>results\<close> raises nothing and stores the rows under the source
  \<open>\<close>, the empty string.
\<close>

theorem empty_source_counterexample:
  "results (oneFile demoEmptySourceFile demoLines) (demoRun\<lparr>resultFiles := [demoEmptySourceFile]\<rparr>) =
     Inr [\<lparr>gridName = ''room_a'', analysisPoints = [(), ()],
            gridValues = [(('''', ''default''), [''10 11 12'', ''20 21 22''])]\<rparr>,
          \<lparr>gridName = ''room_b'', analysisPoints = [(), (), ()],
            gridValues = [(('''', ''default''),
                           [''30 31 32'', ''40 41 42'', ''50 51 52''])]\<rparr>]"
  by (simp add: results_def demoRun_def demoRecipe_def demoGrids_def demoSky_def
      demoEmptySourceFile_def
      fileSourceState_def fileNameSegments_def path_tail_def drop_last4_def split_dotdot_def
      py_item_def loadGrids_from_start setValuesFromFile_def len_grid_def oneFile_def
      demoLines_def)

text \<open>
  In the same way a name with nothing between the last pair of dots and the
  extension gives the empty string as state.
\<close>

lemma empty_state_accepted:
  "fileSourceState ''/sim/office/result/office..scene...ill'' = Inr (''scene'', [])"
  by (simp add: fileSourceState_def fileNameSegments_def
      path_tail_def drop_last4_def split_dotdot_def py_item_def)

text \<open>
  Claim C6, amended. Take any path \<open>dir/stem suffix\<close> with a suffix of four
  characters. When the stem holds no two adjacent dots, parsing the name raises
  \<^verbatim>\<open>IndexError\<close> (the specification's \<open>MalformedResultFileError\<close>), and so does
  \<^verbatim>\<open>results\<close> on every recipe that has been run and has the file in its manifest:
  no grids are returned. When the stem does hold two adjacent dots, the name is
  accepted: the stem ends in \<open>source..state\<close>, either at its start or after another
  pair of dots, neither piece holds two adjacent dots, and these two pieces are the
  source and the state. The pieces may be empty, as the two facts above show.
\<close>

theorem malformed_name_raises:
  assumes "length suffix = 4" and "CHR ''/'' \<notin> set (stem @ suffix)"
  shows
    "((\<nexists>u v. stem = u @ ''..'' @ v) \<longrightarrow>
        fileSourceState (dir @ ''/'' @ stem @ suffix) = Inl IndexError \<and>
        (isCalculated r \<and> dir @ ''/'' @ stem @ suffix \<in> set (resultFiles r)
           \<longrightarrow> results fd r = Inl IndexError)) \<and>
     ((\<exists>u v. stem = u @ ''..'' @ v) \<longrightarrow>
        (\<exists>pre source state.
           fileSourceState (dir @ ''/'' @ stem @ suffix) = Inr (source, state) \<and>
           stem = pre @ source @ ''..'' @ state \<and>
           (pre = [] \<or> (\<exists>q. pre = q @ ''..'')) \<and>
           (\<nexists>u v. source = u @ ''..'' @ v) \<and> (\<nexists>u v. state = u @ ''..'' @ v)))"
proof (intro conjI impI)
  let ?rf = "dir @ ''/'' @ stem @ suffix"
  have t: "path_tail ?rf = stem @ suffix"
    using assms(2) by (rule path_tail_append)
  have segs: "fileNameSegments ?rf = split_dotdot stem"
    unfolding fileNameSegments_def t by (simp only: drop_last4_append [OF assms(1)])
  {
    assume "\<nexists>u v. stem = u @ ''..'' @ v"
    then have short: "length (fileNameSegments ?rf) < 2"
      using split_dotdot_segments_iff [of stem] segs by (simp add: not_le [symmetric])
    then show "fileSourceState ?rf = Inl IndexError"
      by (simp add: fileSourceState_segments)
    {
      assume "isCalculated r \<and> ?rf \<in> set (resultFiles r)"
      with short show "results fd r = Inl IndexError"
        by (auto simp add: results_def mergeFiles_malformed)
    }
  }
  {
    assume "\<exists>u v. stem = u @ ''..'' @ v"
    then have long: "2 \<le> length (split_dotdot stem)"
      using split_dotdot_segments_iff [of stem] by simp
    from last_two [OF this] obtain ys a b where l: "split_dotdot stem = ys @ [a, b]"
      by blast
    have p: "fileSourceState ?rf = Inr (a, b)"
      using l segs by (simp add: fileSourceState_segments nth_append)
    define pre where "pre = (if ys = [] then [] else py_join ''..'' ys @ ''..'')"
    have j: "stem = pre @ a @ ''..'' @ b"
      using py_join_split [of stem] py_join_last_two [of "''..''" ys a b] l
      by (simp add: pre_def)
    have q: "pre = [] \<or> (\<exists>q. pre = q @ ''..'')" by (auto simp add: pre_def)
    have "\<not> has_dotdot a" "\<not> has_dotdot b"
      using split_dotdot_no_dotdot [of a stem] split_dotdot_no_dotdot [of b stem] l
      by simp_all
    then have n: "\<nexists>u v. a = u @ ''..'' @ v" "\<nexists>u v. b = u @ ''..'' @ v"
      by (simp_all add: has_dotdot_iff)
    from p j q n show "\<exists>pre source state.
           fileSourceState ?rf = Inr (source, state) \<and>
           stem = pre @ source @ ''..'' @ state \<and>
           (pre = [] \<or> (\<exists>q. pre = q @ ''..'')) \<and>
           (\<nexists>u v. source = u @ ''..'' @ v) \<and> (\<nexists>u v. state = u @ ''..'' @ v)"
      by blast
  }
qed

theorem malformed_name_raises_witness:
  "results (oneFile demoFile demoLines) (demoRun\<lparr>resultFiles := [demoFile, demoBadFile]\<rparr>)
     = Inl IndexError \<and>
   fileSourceState demoBadFile = Inl IndexError \<and>
   (\<exists>pre. fileSourceState demoFile = Inr (''scene'', ''default'') \<and>
      ''office..scene..default'' = pre @ ''scene'' @ ''..'' @ ''default'')"
proof -
  let ?r = "demoRun\<lparr>resultFiles := [demoFile, demoBadFile]\<rparr>"
  let ?fd = "oneFile demoFile demoLines"
  have four: "length ''.ill'' = 4" by simp
  have bad: "demoBadFile = ''/sim/office/result'' @ ''/'' @ ''office.scene.default'' @ ''.ill''"
    by (simp add: demoBadFile_def)
  have good: "demoFile = ''/sim/office/result'' @ ''/'' @ ''office..scene..default'' @ ''.ill''"
    by (simp add: demoFile_def)
  have s1: "CHR ''/'' \<notin> set (''office.scene.default'' @ ''.ill'')" by simp
  have s2: "CHR ''/'' \<notin> set (''office..scene..default'' @ ''.ill'')" by simp
  have n: "\<nexists>u v. ''office.scene.default'' = u @ ''..'' @ v"
    unfolding has_dotdot_iff [symmetric] by simp
  have y: "\<exists>u v. ''office..scene..default'' = u @ ''..'' @ v"
    unfolding has_dotdot_iff [symmetric] by simp
  have c: "isCalculated ?r \<and> demoBadFile \<in> set (resultFiles ?r)"
    by (simp add: demoRun_def)
  from malformed_name_raises [OF four s1, where dir = "''/sim/office/result''" and r = ?r
      and fd = ?fd] n c
  have 1: "fileSourceState demoBadFile = Inl IndexError" and 2: "results ?fd ?r = Inl IndexError"
    unfolding bad [symmetric] by blast+
  from malformed_name_raises [OF four s2, where dir = "''/sim/office/result''" and r = ?r
      and fd = ?fd] y
  obtain pre source state where
    p: "fileSourceState demoFile = Inr (source, state)" and
    j: "''office..scene..default'' = pre @ source @ ''..'' @ state"
    unfolding good [symmetric] by blast
  from p have "source = ''scene''" "state = ''default''"
    by (simp_all add: demoFile_parsed)
  with p j have "fileSourceState demoFile = Inr (''scene'', ''default'') \<and>
      ''office..scene..default'' = pre @ ''scene'' @ ''..'' @ ''default''" by simp
  then have 3: "\<exists>pre. fileSourceState demoFile = Inr (''scene'', ''default'') \<and>
      ''office..scene..default'' = pre @ ''scene'' @ ''..'' @ ''default''" by blast
  from 1 2 3 show ?thesis by blast
qed

subsection \<open>The calculated flag\<close>

text \<open>
  Claim C8. On a recipe whose \<^verbatim>\<open>_isCalculated\<close> flag is not set, \<^verbatim>\<open>results\<close>
  fails on its assertion, with the message that the recipe has not been run (the
  specification's \<open>InvalidStateError\<close>). With the flag set the assertion passes and
  the merge runs. A file name with fewer than two segments ends it with
  \<^verbatim>\<open>IndexError\<close>. Otherwise the call returns the recipe's grids, with the same names
  and points in the same order, unchanged when the manifest is empty, and loaded: for
  every result file \<open>i\<close> that is the last of the manifest with its \<open>(source, state)\<close>
  pair and every grid \<open>k\<close>, the grid returned holds for that pair the rows of the
  file from the grid's offset on.
\<close>

theorem results_requires_calculated:
  "(\<not> isCalculated r \<longrightarrow> results fd r = Inl (AssertionError notRunMessage)) \<and>
   (isCalculated r \<longrightarrow>
      results fd r \<noteq> Inl (AssertionError notRunMessage) \<and>
      ((\<exists>rf \<in> set (resultFiles r). length (fileNameSegments rf) < 2) \<longrightarrow>
         results fd r = Inl IndexError) \<and>
      ((\<forall>rf \<in> set (resultFiles r). 2 \<le> length (fileNameSegments rf)) \<longrightarrow>
         (\<exists>gs'. results fd r = Inr gs' \<and>
            map gridName gs' = map gridName (analysisGrids r) \<and>
            map analysisPoints gs' = map analysisPoints (analysisGrids r) \<and>
            (resultFiles r = [] \<longrightarrow> gs' = analysisGrids r) \<and>
            (\<forall>i k source state.
               i < length (resultFiles r) \<and> k < length (analysisGrids r) \<and>
               fileSourceState (resultFiles r ! i) = Inr (source, state) \<and>
               (\<forall>j. i < j \<and> j < length (resultFiles r) \<longrightarrow>
                  fileSourceState (resultFiles r ! j) \<noteq> Inr (source, state))
               \<longrightarrow> map_of (gridValues (gs' ! k)) (source, state) =
                     Some (take (len_grid (analysisGrids r ! k))
                            (drop (sum_list (map len_grid (take k (analysisGrids r))))
                               (fd (resultFiles r ! i))))))))"
proof (intro conjI impI)
  assume "\<not> isCalculated r"
  then show "results fd r = Inl (AssertionError notRunMessage)"
    by (simp add: results_def)
next
  assume c: "isCalculated r"
  show "results fd r \<noteq> Inl (AssertionError notRunMessage)"
  proof
    assume "results fd r = Inl (AssertionError notRunMessage)"
    with c have "mergeFiles fd (hoys (skyMatrix r)) (resultFiles r) (analysisGrids r)
      = Inl (AssertionError notRunMessage)" by (simp add: results_def)
    from mergeFiles_error [OF this] show False by simp
  qed
next
  assume c: "isCalculated r"
    and "\<exists>rf \<in> set (resultFiles r). length (fileNameSegments rf) < 2"
  then show "results fd r = Inl IndexError"
    by (auto simp add: results_def mergeFiles_malformed)
next
  assume c: "isCalculated r"
    and w: "\<forall>rf \<in> set (resultFiles r). 2 \<le> length (fileNameSegments rf)"
  from mergeFiles_wellformed [OF w] obtain gs' where
    m: "mergeFiles fd (hoys (skyMatrix r)) (resultFiles r) (analysisGrids r) = Inr gs'"
    by blast
  with c have r: "results fd r = Inr gs'" by (simp add: results_def)
  note f = mergeFiles_frame [OF m]
  have e: "resultFiles r = [] \<longrightarrow> gs' = analysisGrids r"
    using m by auto
  have v: "\<forall>i k source state.
               i < length (resultFiles r) \<and> k < length (analysisGrids r) \<and>
               fileSourceState (resultFiles r ! i) = Inr (source, state) \<and>
               (\<forall>j. i < j \<and> j < length (resultFiles r) \<longrightarrow>
                  fileSourceState (resultFiles r ! j) \<noteq> Inr (source, state))
               \<longrightarrow> map_of (gridValues (gs' ! k)) (source, state) =
                     Some (take (len_grid (analysisGrids r ! k))
                            (drop (sum_list (map len_grid (take k (analysisGrids r))))
                               (fd (resultFiles r ! i))))"
    using mergeFiles_offsets [OF m] by blast
  from r f e v show "\<exists>gs'. results fd r = Inr gs' \<and>
            map gridName gs' = map gridName (analysisGrids r) \<and>
            map analysisPoints gs' = map analysisPoints (analysisGrids r) \<and>
            (resultFiles r = [] \<longrightarrow> gs' = analysisGrids r) \<and>
            (\<forall>i k source state.
               i < length (resultFiles r) \<and> k < length (analysisGrids r) \<and>
               fileSourceState (resultFiles r ! i) = Inr (source, state) \<and>
               (\<forall>j. i < j \<and> j < length (resultFiles r) \<longrightarrow>
                  fileSourceState (resultFiles r ! j) \<noteq> Inr (source, state))
               \<longrightarrow> map_of (gridValues (gs' ! k)) (source, state) =
                     Some (take (len_grid (analysisGrids r ! k))
                            (drop (sum_list (map len_grid (take k (analysisGrids r))))
                               (fd (resultFiles r ! i)))))"
    by blast
qed

theorem results_requires_calculated_witness:
  "results (oneFile demoFile demoLines) demoRecipe = Inl (AssertionError notRunMessage) \<and>
   (\<exists>gs'. results (oneFile demoFile demoLines) demoRun = Inr gs' \<and>
      map gridName gs' = [''room_a'', ''room_b''] \<and>
      map_of (gridValues (gs' ! 0)) (''scene'', ''default'') = Some [''10 11 12'', ''20 21 22''] \<and>
      map_of (gridValues (gs' ! 1)) (''scene'', ''default'')
        = Some [''30 31 32'', ''40 41 42'', ''50 51 52''])"
proof -
  let ?fd = "oneFile demoFile demoLines"
  have n: "\<not> isCalculated demoRecipe" by (simp add: demoRecipe_def)
  have c: "isCalculated demoRun" by (simp add: demoRun_def)
  have w: "\<forall>rf \<in> set (resultFiles demoRun). 2 \<le> length (fileNameSegments rf)"
    by (simp add: demoRun_def demoFile_segments)
  have f: "fileSourceState (resultFiles demoRun ! 0) = Inr (''scene'', ''default'')"
    by (simp add: demoRun_def demoFile_parsed)
  have len: "0 < length (resultFiles demoRun)" "0 < length (analysisGrids demoRun)"
    "1 < length (analysisGrids demoRun)"
    by (simp_all add: demoRun_def demoRecipe_def demoGrids_def)
  have l: "\<forall>j. 0 < j \<and> j < length (resultFiles demoRun) \<longrightarrow>
           fileSourceState (resultFiles demoRun ! j) \<noteq> Inr (''scene'', ''default'')"
    by (simp add: demoRun_def)
  from n results_requires_calculated [of demoRecipe ?fd]
  have 1: "results ?fd demoRecipe = Inl (AssertionError notRunMessage)"
    by blast
  from c w results_requires_calculated [of demoRun ?fd]
  obtain gs' where g: "results ?fd demoRun = Inr gs'"
    and names: "map gridName gs' = map gridName (analysisGrids demoRun)"
    and v: "\<forall>i k source state.
               i < length (resultFiles demoRun) \<and> k < length (analysisGrids demoRun) \<and>
               fileSourceState (resultFiles demoRun ! i) = Inr (source, state) \<and>
               (\<forall>j. i < j \<and> j < length (resultFiles demoRun) \<longrightarrow>
                  fileSourceState (resultFiles demoRun ! j) \<noteq> Inr (source, state))
               \<longrightarrow> map_of (gridValues (gs' ! k)) (source, state) =
                     Some (take (len_grid (analysisGrids demoRun ! k))
                            (drop (sum_list (map len_grid (take k (analysisGrids demoRun))))
                               (?fd (resultFiles demoRun ! i))))"
    by blast
  from names have 2: "map gridName gs' = [''room_a'', ''room_b'']"
    by (simp add: demoRun_def demoRecipe_def demoGrids_def)
  from v [rule_format, of 0 0 "''scene''" "''default''"] len f l
  have 3: "map_of (gridValues (gs' ! 0)) (''scene'', ''default'') = Some [''10 11 12'', ''20 21 22'']"
    by (simp add: demoRun_def demoRecipe_def demoGrids_def len_grid_def oneFile_def
        demoLines_def)
  from v [rule_format, of 0 1 "''scene''" "''default''"] len f l
  have 4: "map_of (gridValues (gs' ! 1)) (''scene'', ''default'')
        = Some [''30 31 32'', ''40 41 42'', ''50 51 52'']"
    by (simp add: demoRun_def demoRecipe_def demoGrids_def len_grid_def oneFile_def
        demoLines_def)
  from 1 g 2 3 4 show ?thesis by (intro conjI exI [of _ gs']) simp_all
qed

subsection \<open>No shape check\<close>

text \<open>
  Claim C7 as stated, that a result file whose line count differs from the sum of
  the grid sizes makes the merger fail, does not hold: the file below has six data
  lines for five points, and \<^verbatim>\<open>results\<close> returns, the sixth line unused. The
  recipe passes \<^verbatim>\<open>checkPointCount=False\<close> and compares no counts itself.
\<close>

theorem results_shape_counterexample:
  "isCalculated demoRun \<and>
   length (demoLines @ [''60 61 62'']) \<noteq> sum_list (map len_grid (analysisGrids demoRun)) \<and>
   results (oneFile demoFile (demoLines @ [''60 61 62''])) demoRun =
     Inr [\<lparr>gridName = ''room_a'', analysisPoints = [(), ()],
            gridValues = [((''scene'', ''default''), [''10 11 12'', ''20 21 22''])]\<rparr>,
          \<lparr>gridName = ''room_b'', analysisPoints = [(), (), ()],
            gridValues = [((''scene'', ''default''),
                           [''30 31 32'', ''40 41 42'', ''50 51 52''])]\<rparr>]"
  by (simp add: demoRun_results)
    (simp add: demoRun_def demoRecipe_def demoGrids_def len_grid_def demoLines_def)

text \<open>
  Claim C7, amended. \<^verbatim>\<open>results\<close> makes no shape check. For a recipe that has
  been run and whose file names are well formed, a result file with more data lines
  than the grids have points raises nothing: the call returns, every grid \<open>k\<close> holds
  exactly \<^verbatim>\<open>len(grid k)\<close> lines for the file's \<open>(source, state)\<close> pair, taken from
  its offset, and the lines beyond the sum of the grid sizes are given to no grid.
\<close>

theorem results_surplus_lines:
  assumes "isCalculated r"
    and "\<forall>rf \<in> set (resultFiles r). 2 \<le> length (fileNameSegments rf)"
    and "i < length (resultFiles r)"
    and "fileSourceState (resultFiles r ! i) = Inr (source, state)"
    and "\<forall>j. i < j \<and> j < length (resultFiles r) \<longrightarrow>
           fileSourceState (resultFiles r ! j) \<noteq> Inr (source, state)"
    and "sum_list (map len_grid (analysisGrids r)) < length (fd (resultFiles r ! i))"
  shows "\<exists>gs'. results fd r = Inr gs' \<and>
           (\<forall>k < length (analysisGrids r).
              \<exists>rows. map_of (gridValues (gs' ! k)) (source, state) = Some rows \<and>
                length rows = len_grid (analysisGrids r ! k) \<and>
                rows = take (len_grid (analysisGrids r ! k))
                         (drop (sum_list (map len_grid (take k (analysisGrids r))))
                            (fd (resultFiles r ! i))))"
proof -
  let ?gs = "analysisGrids r"
  let ?ls = "fd (resultFiles r ! i)"
  from mergeFiles_wellformed [OF assms(2)] obtain gs' where
    m: "mergeFiles fd (hoys (skyMatrix r)) (resultFiles r) ?gs = Inr gs'" by blast
  with assms(1) have r: "results fd r = Inr gs'" by (simp add: results_def)
  have "\<exists>rows. map_of (gridValues (gs' ! k)) (source, state) = Some rows \<and>
          length rows = len_grid (?gs ! k) \<and>
          rows = take (len_grid (?gs ! k)) (drop (sum_list (map len_grid (take k ?gs))) ?ls)"
    if k: "k < length ?gs" for k
  proof -
    have "sum_list (take k (map len_grid ?gs)) + map len_grid ?gs ! k
            \<le> sum_list (map len_grid ?gs)"
      using k by (intro sum_list_take_nth_le) simp
    then have "sum_list (map len_grid (take k ?gs)) + len_grid (?gs ! k) \<le> length ?ls"
      using k assms(6) by (simp add: take_map)
    then have "length (take (len_grid (?gs ! k))
                 (drop (sum_list (map len_grid (take k ?gs))) ?ls)) = len_grid (?gs ! k)"
      by simp
    with mergeFiles_offsets [OF m assms(3) assms(4) assms(5) k] show ?thesis by simp
  qed
  with r show ?thesis by blast
qed

theorem results_surplus_lines_witness:
  "\<exists>gs'. results (oneFile demoFile (demoLines @ [''60 61 62''])) demoRun = Inr gs' \<and>
     (\<forall>k < 2. \<exists>rows. map_of (gridValues (gs' ! k)) (''scene'', ''default'') = Some rows \<and>
        length rows = [2, 3] ! k)"
proof -
  let ?fd = "oneFile demoFile (demoLines @ [''60 61 62''])"
  have c: "isCalculated demoRun" by (simp add: demoRun_def)
  have w: "\<forall>rf \<in> set (resultFiles demoRun). 2 \<le> length (fileNameSegments rf)"
    by (simp add: demoRun_def demoFile_segments)
  have n: "0 < length (resultFiles demoRun)" by (simp add: demoRun_def)
  have f: "fileSourceState (resultFiles demoRun ! 0) = Inr (''scene'', ''default'')"
    by (simp add: demoRun_def demoFile_parsed)
  have l: "\<forall>j. 0 < j \<and> j < length (resultFiles demoRun) \<longrightarrow>
           fileSourceState (resultFiles demoRun ! j) \<noteq> Inr (''scene'', ''default'')"
    by (simp add: demoRun_def)
  have s: "sum_list (map len_grid (analysisGrids demoRun)) < length (?fd (resultFiles demoRun ! 0))"
    by (simp add: demoRun_def demoRecipe_def demoGrids_def len_grid_def oneFile_def demoLines_def)
  have g: "length (analysisGrids demoRun) = 2"
    "\<And>k. k < 2 \<Longrightarrow> len_grid (analysisGrids demoRun ! k) = [2, 3] ! k"
    by (auto simp add: demoRun_def demoRecipe_def demoGrids_def len_grid_def less_Suc_eq
        numeral_2_eq_2)
  from results_surplus_lines [where fd = ?fd, OF c w n f l s] obtain gs' where
    r: "results ?fd demoRun = Inr gs'" and
    v: "\<forall>k < length (analysisGrids demoRun).
          \<exists>rows. map_of (gridValues (gs' ! k)) (''scene'', ''default'') = Some rows \<and>
            length rows = len_grid (analysisGrids demoRun ! k) \<and>
            rows = take (len_grid (analysisGrids demoRun ! k))
                     (drop (sum_list (map len_grid (take k (analysisGrids demoRun))))
                        (?fd (resultFiles demoRun ! 0)))"
    by blast
  have "\<forall>k < 2. \<exists>rows. map_of (gridValues (gs' ! k)) (''scene'', ''default'') = Some rows \<and>
        length rows = [2, 3] ! k"
    using v g by (metis (no_types, lifting))
  with r show ?thesis by blast
qed

subsection \<open>What the file name must look like\<close>

text \<open>
  Claim C10. \<^verbatim>\<open>results\<close> removes exactly the last four characters of the base
  name, whatever they are, and splits what is left at \<^verbatim>\<open>".."\<close>: for a path
  \<open>dir/stem suffix\<close> with a suffix of four characters the segments are those of the
  stem. So a name \<open>p..source..state\<close> followed by a dot and an extension of three
  characters gives back \<open>(source, state)\<close>, when neither of them contains a dot and
  \<open>p\<close> does not end in one. The lemmas after the theorem show other shapes going
  wrong: an extension of two or of four characters shifts the cut, and single dots
  between the parts leave one segment only.
\<close>

theorem fileSourceState_recovers:
  assumes "length suffix = 4"
    and "CHR ''/'' \<notin> set (stem @ suffix)"
  shows "fileNameSegments (dir @ ''/'' @ stem @ suffix) = split_dotdot stem \<and>
         (stem = p @ ''..'' @ source @ ''..'' @ state \<and>
          (p = [] \<or> last p \<noteq> CHR ''.'') \<and>
          CHR ''.'' \<notin> set source \<and> CHR ''.'' \<notin> set state
          \<longrightarrow> fileSourceState (dir @ ''/'' @ stem @ suffix) = Inr (source, state))"
proof -
  have t: "path_tail (dir @ ''/'' @ stem @ suffix) = stem @ suffix"
    using assms(2) by (rule path_tail_append)
  have segs: "fileNameSegments (dir @ ''/'' @ stem @ suffix) = split_dotdot stem"
    unfolding fileNameSegments_def t by (simp only: drop_last4_append [OF assms(1)])
  have "fileSourceState (dir @ ''/'' @ stem @ suffix) = Inr (source, state)"
    if "stem = p @ ''..'' @ source @ ''..'' @ state"
      and "p = [] \<or> last p \<noteq> CHR ''.''"
      and "CHR ''.'' \<notin> set source" and "CHR ''.'' \<notin> set state"
  proof -
    have "fileNameSegments (dir @ ''/'' @ stem @ suffix) = split_dotdot p @ [source, state]"
      using segs split_dotdot_triple [OF that(2-4)] that(1) by simp
    then show ?thesis
      by (simp add: fileSourceState_segments nth_append)
  qed
  with segs show ?thesis by blast
qed

theorem fileSourceState_recovers_witness:
  "fileNameSegments demoFile = split_dotdot ''office..scene..default'' \<and>
   fileSourceState demoFile = Inr (''scene'', ''default'')"
proof -
  have a: "length ''.ill'' = 4" by simp
  have b: "CHR ''/'' \<notin> set (''office..scene..default'' @ ''.ill'')" by simp
  have c: "''office..scene..default'' = ''office'' @ ''..'' @ ''scene'' @ ''..'' @ ''default'' \<and>
          (''office'' = [] \<or> last ''office'' \<noteq> CHR ''.'') \<and>
          CHR ''.'' \<notin> set ''scene'' \<and> CHR ''.'' \<notin> set ''default''" by simp
  have d: "demoFile = ''/sim/office/result'' @ ''/'' @ ''office..scene..default'' @ ''.ill''"
    by (simp add: demoFile_def)
  from fileSourceState_recovers [OF a b, of "''/sim/office/result''" "''office''" "''scene''" "''default''"] c
  show ?thesis unfolding d by blast
qed

lemma short_extension_misparsed:
  "fileSourceState ''/sim/office/result/office..scene..default.dc'' = Inr (''scene'', ''defaul'')"
  by (simp add: fileSourceState_def fileNameSegments_def
      path_tail_def drop_last4_def split_dotdot_def py_item_def)

lemma long_extension_misparsed:
  "fileSourceState ''/sim/office/result/office..scene..default.data'' = Inr (''scene'', ''default.'')"
  by (simp add: fileSourceState_def fileNameSegments_def
      path_tail_def drop_last4_def split_dotdot_def py_item_def)

lemma single_dots_rejected:
  "fileSourceState ''/sim/office/result/office.scene.default.ill'' = Inl IndexError"
  by (simp add: fileSourceState_def fileNameSegments_def
      path_tail_def drop_last4_def split_dotdot_def py_item_def)

lemma empty_source_accepted:
  "fileSourceState ''/sim/office/result/..default.ill'' = Inr ([], ''default'')"
  by (simp add: fileSourceState_def fileNameSegments_def
      path_tail_def drop_last4_def split_dotdot_def py_item_def)

subsection \<open>The simulation type and the sky\<close>

text \<open>
  Claim C5. On a recipe whose sky is not climate-based, setting the simulation type
  to \<open>1\<close> (radiation) fails on the setter's assertion (the specification's
  \<open>ConfigurationError\<close>) and leaves no new recipe. On a recipe whose sky is
  climate-based it succeeds, and both the recipe and its sky then record \<open>1\<close>. More
  generally, after any successful call of the setter the sky's recorded type equals
  the recipe's, a value between \<open>0\<close> and \<open>2\<close>.
\<close>

theorem radiation_needs_climate_based_sky:
  "(\<not> isClimateBased (skyMatrix r) \<longrightarrow>
      set_simulationType (PyInt 1) r = Inl (AssertionError notClimateBasedMessage)) \<and>
   (isClimateBased (skyMatrix r) \<longrightarrow>
      set_simulationType (PyInt 1) r =
        Inr (r\<lparr>simType := 1, skyMatrix := (skyMatrix r)\<lparr>skyType := 1\<rparr>\<rparr>)) \<and>
   (set_simulationType v r = Inr r' \<longrightarrow>
      skyType (skyMatrix r') = simType r' \<and> 0 \<le> simType r' \<and> simType r' \<le> 2)"
  by (cases v) (auto simp add: set_simulationType_def split: if_splits)

theorem radiation_needs_climate_based_sky_witness:
  "set_simulationType (PyInt 1) demoPlainSky = Inl (AssertionError notClimateBasedMessage) \<and>
   set_simulationType (PyInt 1) demoRecipe =
     Inr (demoRecipe\<lparr>simType := 1, skyMatrix := demoSky\<lparr>skyType := 1\<rparr>\<rparr>) \<and>
   skyType (skyMatrix (demoRecipe\<lparr>simType := 1, skyMatrix := demoSky\<lparr>skyType := 1\<rparr>\<rparr>)) =
     simType (demoRecipe\<lparr>simType := 1, skyMatrix := demoSky\<lparr>skyType := 1\<rparr>\<rparr>)"
proof -
  have p: "\<not> isClimateBased (skyMatrix demoPlainSky)"
    by (simp add: demoPlainSky_def)
  have q: "isClimateBased (skyMatrix demoRecipe)" "skyMatrix demoRecipe = demoSky"
    by (simp_all add: demoRecipe_def demoSky_def)
  from p radiation_needs_climate_based_sky [of demoPlainSky]
  have 1: "set_simulationType (PyInt 1) demoPlainSky = Inl (AssertionError notClimateBasedMessage)"
    by blast
  from q radiation_needs_climate_based_sky [of demoRecipe]
  have 2: "set_simulationType (PyInt 1) demoRecipe =
     Inr (demoRecipe\<lparr>simType := 1, skyMatrix := demoSky\<lparr>skyType := 1\<rparr>\<rparr>)"
    by simp
  from 2 radiation_needs_climate_based_sky [of demoRecipe "PyInt 1"
      "demoRecipe\<lparr>simType := 1, skyMatrix := demoSky\<lparr>skyType := 1\<rparr>\<rparr>"]
  have 3: "skyType (skyMatrix (demoRecipe\<lparr>simType := 1, skyMatrix := demoSky\<lparr>skyType := 1\<rparr>\<rparr>)) =
     simType (demoRecipe\<lparr>simType := 1, skyMatrix := demoSky\<lparr>skyType := 1\<rparr>\<rparr>)"
    by blast
  from 1 2 3 show ?thesis by blast
qed

subsection \<open>What a call of write adds\<close>

lemma snd_emitStage [simp]: "snd (emitStage onDisk pf reuse st) = stageOutputs st"
  by (simp add: emitStage_def)

lemma builderArgs_accumulators [simp]:
  "builderArgs pn pf sf ifs pts (r\<lparr>commands := c\<rparr>) = builderArgs pn pf sf ifs pts r"
  "builderArgs pn pf sf ifs pts (r\<lparr>resultFiles := f\<rparr>) = builderArgs pn pf sf ifs pts r"
  by (simp_all add: builderArgs_def totalPointCount_def totalRunsCount_def)

lemma argProjectFolder_builderArgs [simp]:
  "argProjectFolder (builderArgs pn pf sf ifs pts r) = pf"
  by (simp add: builderArgs_def)

lemma argProjectFolder_stageArgs [simp]:
  "argProjectFolder (stageArgs site tf pn r) = writeContent site tf pn"
  by (simp add: stageArgs_def Let_def)

lemma stageArgs_accumulators [simp]:
  "stageArgs site tf pn (r\<lparr>commands := c\<rparr>) = stageArgs site tf pn r"
  "stageArgs site tf pn (r\<lparr>resultFiles := f\<rparr>) = stageArgs site tf pn r"
  by (simp_all add: stageArgs_def Let_def)

lemma daylightStages_accumulators [simp]:
  "daylightStages site tf pn (r\<lparr>commands := c\<rparr>) = daylightStages site tf pn r"
  "daylightStages site tf pn (r\<lparr>resultFiles := f\<rparr>) = daylightStages site tf pn r"
  by (simp_all add: daylightStages_def Let_def)

lemma write_recipe:
  "snd (snd (recipe_write site tf pn hdr r)) =
     r\<lparr>commands := commands r @
         (if hdr then [header site (writeContent site tf pn)] else []) @
         fst (getCommandsSky site (writeContent site tf pn) (skyMatrix r) True) @
         concat (map (\<lambda>st. fst (emitStage (fileExists site) (writeContent site tf pn)
                               (reuseDaylightMtx r) st))
               (daylightStages site tf pn r)),
       resultFiles := resultFiles r @
         map (os_path_join (writeContent site tf pn))
           (concat (map stageOutputs (daylightStages site tf pn r)))\<rparr>"
  by (simp add: recipe_write_def Let_def split_def daylightStages_def stageArgs_def
      getCommandsSceneDaylightCoeff_def getCommandsWGroupsDaylightCoeff_def comp_def)


lemma fst_emitStage:
  "fst (emitStage (fileExists site) pf reuse st) =
     (if reuse \<and> stageOnDisk site pf st then [] else stageCommands st)"
  by (simp add: emitStage_def stageOnDisk_def)

lemma write_commands:
  "commands (recipeAfterWrite site tf pn hdr r) =
     commands r @
     (if hdr then [header site (writeContent site tf pn)] else []) @
     fst (getCommandsSky site (writeContent site tf pn) (skyMatrix r) True) @
     concat (map (\<lambda>st. if reuseDaylightMtx r \<and> stageOnDisk site (writeContent site tf pn) st
                        then [] else stageCommands st)
               (daylightStages site tf pn r))"
  by (simp add: recipeAfterWrite_def write_recipe fst_emitStage)

lemma write_resultFiles:
  "resultFiles (recipeAfterWrite site tf pn hdr r) =
     resultFiles r @
     map (os_path_join (writeContent site tf pn))
       (concat (map stageOutputs (daylightStages site tf pn r)))"
  by (simp add: recipeAfterWrite_def write_recipe)

lemma write_script:
  "scriptWritten site tf pn hdr r =
     py_join [CHR 0x0A]
       (''@echo off'' # echoComments (commands (recipeAfterWrite site tf pn hdr r)))"
  by (simp add: scriptWritten_def recipeAfterWrite_def recipe_write_def Let_def split_def)

lemma write_frame:
  "skyMatrix (recipeAfterWrite site tf pn hdr r) = skyMatrix r"
  "windowGroups (recipeAfterWrite site tf pn hdr r) = windowGroups r"
  "reuseDaylightMtx (recipeAfterWrite site tf pn hdr r) = reuseDaylightMtx r"
  "analysisGrids (recipeAfterWrite site tf pn hdr r) = analysisGrids r"
  "isCalculated (recipeAfterWrite site tf pn hdr r) = isCalculated r"
  "simType (recipeAfterWrite site tf pn hdr r) = simType r"
  by (simp_all add: recipeAfterWrite_def write_recipe)

lemma daylightStages_after_write:
  "daylightStages site tf pn (recipeAfterWrite site tf' pn' hdr r) = daylightStages site tf pn r"
  by (simp add: recipeAfterWrite_def write_recipe)

lemma emittedCommands_after_write:
  "emittedCommands site tf pn hdr (recipeAfterWrite site tf' pn' hdr' r) =
     emittedCommands site tf pn hdr r"
  by (simp add: emittedCommands_def write_frame daylightStages_after_write)

lemma declaredFiles_after_write:
  "declaredFiles site tf pn (recipeAfterWrite site tf' pn' hdr' r) = declaredFiles site tf pn r"
  by (simp add: declaredFiles_def daylightStages_after_write)

lemma emittedCommands_accumulators:
  "emittedCommands site tf pn hdr (r\<lparr>commands := c, resultFiles := f\<rparr>) =
     emittedCommands site tf pn hdr r"
  by (simp add: emittedCommands_def)

lemma declaredFiles_accumulators:
  "declaredFiles site tf pn (r\<lparr>commands := c, resultFiles := f\<rparr>) = declaredFiles site tf pn r"
  by (simp add: declaredFiles_def)

lemma write_commands_emitted:
  "commands (recipeAfterWrite site tf pn hdr r) = commands r @ emittedCommands site tf pn hdr r"
  by (simp add: write_commands emittedCommands_def Let_def)

lemma write_resultFiles_declared:
  "resultFiles (recipeAfterWrite site tf pn hdr r) = resultFiles r @ declaredFiles site tf pn r"
  by (simp add: write_resultFiles declaredFiles_def)

subsection \<open>The small configuration, written\<close>

lemma show_nat_digits:
  "show_nat 0 = ''0''" "show_nat (Suc 0) = ''1''" "show_nat 2 = ''2''"
  by (simp_all add: show_nat.simps)

lemma upt_small: "[0 ..< 3] = [0, 1, 2::nat]" "[0 ..< 2] = [0, 1::nat]"
  by (simp_all add: upt_rec)

lemma demo_folder: "writeContent demoSite ''/sim'' ''office'' = ''/sim/office''"
  by (simp add: demoSite_def)

lemma demo_header: "header demoSite ''/sim/office'' = ''cd /sim/office''"
  by (simp add: demoSite_def)

lemma demo_sky:
  "fst (getCommandsSky demoSite ''/sim/office'' demoSky True)
     = ['':: sky matrix'', ''gendaymtx skymtx_r2'']"
  by (simp add: getCommandsSky_def emitStage_def demoSite_def demoSky_def os_path_join_def)

lemma demo_sky_block:
  "fst (getCommandsSky demoSite ''/sim/office'' (skyMatrix (demoRecipe\<lparr>reuseDaylightMtx := b\<rparr>)) True)
     = ['':: sky matrix'', ''gendaymtx skymtx_r2'']"
  by (simp add: demo_sky demoRecipe_def)

lemma demo_stages:
  "daylightStages demoSite ''/sim'' ''office'' (demoRecipe\<lparr>reuseDaylightMtx := b\<rparr>) =
     [\<lparr>stageCommands = [''rfluxmtx scene''],
       stageOutputs = [''result/office..scene..default.ill'']\<rparr>,
      \<lparr>stageCommands = [''rfluxmtx south 0''], stageOutputs = [''result/office..south..0.ill'']\<rparr>,
      \<lparr>stageCommands = [''rfluxmtx south 1''], stageOutputs = [''result/office..south..1.ill'']\<rparr>,
      \<lparr>stageCommands = [''rfluxmtx south 2''], stageOutputs = [''result/office..south..2.ill'']\<rparr>,
      \<lparr>stageCommands = [''rfluxmtx roof 0''], stageOutputs = [''result/office..roof..0.ill'']\<rparr>,
      \<lparr>stageCommands = [''rfluxmtx roof 1''], stageOutputs = [''result/office..roof..1.ill'']\<rparr>]"
  by (simp add: daylightStages_def stageArgs_def builderArgs_def groupStages_def Let_def
      demoSite_def demoRecipe_def upt_small show_nat_digits)

lemma demo_on_disk:
  "stageOnDisk demoSite ''/sim/office'' \<lparr>stageCommands = cs, stageOutputs = [f]\<rparr>
     \<longleftrightarrow> os_path_join ''/sim/office'' f = ''/sim/office/result/office..scene..default.ill''"
  by (simp add: stageOnDisk_def demoSite_def)

lemma demo_joins:
  "os_path_join ''/sim/office'' ''result/office..scene..default.ill''
     = ''/sim/office/result/office..scene..default.ill''"
  "os_path_join ''/sim/office'' ''result/office..south..0.ill'' = ''/sim/office/result/office..south..0.ill''"
  "os_path_join ''/sim/office'' ''result/office..south..1.ill'' = ''/sim/office/result/office..south..1.ill''"
  "os_path_join ''/sim/office'' ''result/office..south..2.ill'' = ''/sim/office/result/office..south..2.ill''"
  "os_path_join ''/sim/office'' ''result/office..roof..0.ill'' = ''/sim/office/result/office..roof..0.ill''"
  "os_path_join ''/sim/office'' ''result/office..roof..1.ill'' = ''/sim/office/result/office..roof..1.ill''"
  by (simp_all add: os_path_join_def)

lemma demo_emitted:
  "emittedCommands demoSite ''/sim'' ''office'' True demoRecipe =
     [''cd /sim/office'', '':: sky matrix'', ''gendaymtx skymtx_r2'',
      ''rfluxmtx south 0'', ''rfluxmtx south 1'', ''rfluxmtx south 2'',
      ''rfluxmtx roof 0'', ''rfluxmtx roof 1'']"
proof -
  have r: "demoRecipe = demoRecipe\<lparr>reuseDaylightMtx := True\<rparr>"
    by (simp add: demoRecipe_def)
  have f: "reuseDaylightMtx demoRecipe" "skyMatrix demoRecipe = demoSky"
    by (simp_all add: demoRecipe_def)
  have s: "daylightStages demoSite ''/sim'' ''office'' demoRecipe =
      daylightStages demoSite ''/sim'' ''office'' (demoRecipe\<lparr>reuseDaylightMtx := True\<rparr>)"
    using r by simp
  show ?thesis
    by (simp add: emittedCommands_def Let_def s demo_stages demo_folder demo_header f demo_sky
        demo_on_disk demo_joins)
qed

lemma demo_declared:
  "declaredFiles demoSite ''/sim'' ''office'' demoRecipe =
     [''/sim/office/result/office..scene..default.ill'',
      ''/sim/office/result/office..south..0.ill'',
      ''/sim/office/result/office..south..1.ill'',
      ''/sim/office/result/office..south..2.ill'',
      ''/sim/office/result/office..roof..0.ill'',
      ''/sim/office/result/office..roof..1.ill'']"
proof -
  have r: "demoRecipe = demoRecipe\<lparr>reuseDaylightMtx := True\<rparr>"
    by (simp add: demoRecipe_def)
  have s: "daylightStages demoSite ''/sim'' ''office'' demoRecipe =
      daylightStages demoSite ''/sim'' ''office'' (demoRecipe\<lparr>reuseDaylightMtx := True\<rparr>)"
    using r by simp
  show ?thesis
    by (simp add: declaredFiles_def s demo_stages demo_folder demo_joins)
qed

lemma demo_lists_empty: "commands demoRecipe = []" "resultFiles demoRecipe = []"
  by (simp_all add: demoRecipe_def)

subsection \<open>Reuse of the daylight matrices\<close>

text \<open>
  Claim C2. A call of \<^verbatim>\<open>write\<close> appends to the command list the header (when
  asked for), the sky block, and then, for each daylight-coefficient stage in order
  (the base scene, then every state of every window group), nothing when the recipe's
  \<^verbatim>\<open>reuseDaylightMtx\<close> is set and all output files of the stage are on disk, and
  the stage's commands otherwise. The output files of every stage, joined to the
  project folder, are appended to the result-file manifest whether or not the stage's
  commands were emitted. When \<^verbatim>\<open>reuseDaylightMtx\<close> is not set, the commands of all
  stages are there, whatever is on disk. The statement is about what the call adds;
  the list it adds to is the subject of claim C9.
\<close>

theorem write_reuse_policy:
  "commands (recipeAfterWrite site tf pn hdr r) =
     commands r @
     (if hdr then [header site (writeContent site tf pn)] else []) @
     fst (getCommandsSky site (writeContent site tf pn) (skyMatrix r) True) @
     concat (map (\<lambda>st. if reuseDaylightMtx r \<and> stageOnDisk site (writeContent site tf pn) st
                        then [] else stageCommands st)
               (daylightStages site tf pn r)) \<and>
   resultFiles (recipeAfterWrite site tf pn hdr r) =
     resultFiles r @
     map (os_path_join (writeContent site tf pn))
       (concat (map stageOutputs (daylightStages site tf pn r))) \<and>
   (st \<in> set (daylightStages site tf pn r) \<longrightarrow>
      set (map (os_path_join (writeContent site tf pn)) (stageOutputs st))
        \<subseteq> set (resultFiles (recipeAfterWrite site tf pn hdr r))) \<and>
   (\<not> reuseDaylightMtx r \<longrightarrow>
      commands (recipeAfterWrite site tf pn hdr r) =
        commands r @
        (if hdr then [header site (writeContent site tf pn)] else []) @
        fst (getCommandsSky site (writeContent site tf pn) (skyMatrix r) True) @
        concat (map stageCommands (daylightStages site tf pn r)))"
proof (intro conjI impI)
  show "commands (recipeAfterWrite site tf pn hdr r) =
     commands r @
     (if hdr then [header site (writeContent site tf pn)] else []) @
     fst (getCommandsSky site (writeContent site tf pn) (skyMatrix r) True) @
     concat (map (\<lambda>st. if reuseDaylightMtx r \<and> stageOnDisk site (writeContent site tf pn) st
                        then [] else stageCommands st)
               (daylightStages site tf pn r))"
    by (rule write_commands)
  show "resultFiles (recipeAfterWrite site tf pn hdr r) =
     resultFiles r @
     map (os_path_join (writeContent site tf pn))
       (concat (map stageOutputs (daylightStages site tf pn r)))"
    by (rule write_resultFiles)
next
  assume "st \<in> set (daylightStages site tf pn r)"
  then show "set (map (os_path_join (writeContent site tf pn)) (stageOutputs st))
        \<subseteq> set (resultFiles (recipeAfterWrite site tf pn hdr r))"
    by (auto simp add: write_resultFiles)
next
  assume "\<not> reuseDaylightMtx r"
  then show "commands (recipeAfterWrite site tf pn hdr r) =
        commands r @
        (if hdr then [header site (writeContent site tf pn)] else []) @
        fst (getCommandsSky site (writeContent site tf pn) (skyMatrix r) True) @
        concat (map stageCommands (daylightStages site tf pn r))"
    by (simp add: write_commands)
qed

theorem write_reuse_policy_witness:
  "commands (recipeAfterWrite demoSite ''/sim'' ''office'' True demoRecipe) =
     [''cd /sim/office'', '':: sky matrix'', ''gendaymtx skymtx_r2'',
      ''rfluxmtx south 0'', ''rfluxmtx south 1'', ''rfluxmtx south 2'',
      ''rfluxmtx roof 0'', ''rfluxmtx roof 1''] \<and>
   ''/sim/office/result/office..scene..default.ill''
     \<in> set (resultFiles (recipeAfterWrite demoSite ''/sim'' ''office'' True demoRecipe)) \<and>
   commands (recipeAfterWrite demoSite ''/sim'' ''office'' True
               (demoRecipe\<lparr>reuseDaylightMtx := False\<rparr>)) =
     [''cd /sim/office'', '':: sky matrix'', ''gendaymtx skymtx_r2'', ''rfluxmtx scene'',
      ''rfluxmtx south 0'', ''rfluxmtx south 1'', ''rfluxmtx south 2'',
      ''rfluxmtx roof 0'', ''rfluxmtx roof 1'']"
proof -
  let ?scene = "\<lparr>stageCommands = [''rfluxmtx scene''],
                  stageOutputs = [''result/office..scene..default.ill'']\<rparr>"
  have r: "demoRecipe = demoRecipe\<lparr>reuseDaylightMtx := True\<rparr>"
    by (simp add: demoRecipe_def)
  have flags: "reuseDaylightMtx demoRecipe" "commands demoRecipe = []"
    "\<not> reuseDaylightMtx (demoRecipe\<lparr>reuseDaylightMtx := False\<rparr>)"
    "commands (demoRecipe\<lparr>reuseDaylightMtx := False\<rparr>) = []"
    by (simp_all add: demoRecipe_def)
  have stages: "daylightStages demoSite ''/sim'' ''office'' demoRecipe =
      daylightStages demoSite ''/sim'' ''office'' (demoRecipe\<lparr>reuseDaylightMtx := True\<rparr>)"
    using r by simp
  have sky: "fst (getCommandsSky demoSite ''/sim/office'' (skyMatrix demoRecipe) True)
     = ['':: sky matrix'', ''gendaymtx skymtx_r2'']"
    using demo_sky_block [of True] r by simp
  note on = write_reuse_policy [of demoSite "''/sim''" "''office''" True demoRecipe ?scene]
  note off = write_reuse_policy [of demoSite "''/sim''" "''office''" True
      "demoRecipe\<lparr>reuseDaylightMtx := False\<rparr>" ?scene]
  from on have 1: "commands (recipeAfterWrite demoSite ''/sim'' ''office'' True demoRecipe) =
     [''cd /sim/office'', '':: sky matrix'', ''gendaymtx skymtx_r2'',
      ''rfluxmtx south 0'', ''rfluxmtx south 1'', ''rfluxmtx south 2'',
      ''rfluxmtx roof 0'', ''rfluxmtx roof 1'']"
    by (simp add: flags stages demo_stages demo_folder demo_header sky demo_on_disk demo_joins)
  have mem: "?scene \<in> set (daylightStages demoSite ''/sim'' ''office'' demoRecipe)"
    by (simp add: stages demo_stages)
  from on mem have "set (map (os_path_join (writeContent demoSite ''/sim'' ''office''))
        (stageOutputs ?scene))
      \<subseteq> set (resultFiles (recipeAfterWrite demoSite ''/sim'' ''office'' True demoRecipe))"
    by blast
  then have 2: "''/sim/office/result/office..scene..default.ill''
     \<in> set (resultFiles (recipeAfterWrite demoSite ''/sim'' ''office'' True demoRecipe))"
    by (simp add: demo_folder demo_joins)
  from off flags(3) have "commands (recipeAfterWrite demoSite ''/sim'' ''office'' True
               (demoRecipe\<lparr>reuseDaylightMtx := False\<rparr>)) =
      commands (demoRecipe\<lparr>reuseDaylightMtx := False\<rparr>) @
        (if True then [header demoSite (writeContent demoSite ''/sim'' ''office'')] else []) @
        fst (getCommandsSky demoSite (writeContent demoSite ''/sim'' ''office'')
               (skyMatrix (demoRecipe\<lparr>reuseDaylightMtx := False\<rparr>)) True) @
        concat (map stageCommands (daylightStages demoSite ''/sim'' ''office''
               (demoRecipe\<lparr>reuseDaylightMtx := False\<rparr>)))"
    by blast
  then have 3: "commands (recipeAfterWrite demoSite ''/sim'' ''office'' True
               (demoRecipe\<lparr>reuseDaylightMtx := False\<rparr>)) =
     [''cd /sim/office'', '':: sky matrix'', ''gendaymtx skymtx_r2'', ''rfluxmtx scene'',
      ''rfluxmtx south 0'', ''rfluxmtx south 1'', ''rfluxmtx south 2'',
      ''rfluxmtx roof 0'', ''rfluxmtx roof 1'']"
    by (simp add: flags demo_stages demo_folder demo_header demo_sky_block sky)
  from 1 2 3 show ?thesis by simp
qed

subsection \<open>Reuse of the sky matrix\<close>

text \<open>
  Claim C3 as stated, that the sky stage is computed at most once per script in every
  call, does not hold. The script is written from the whole command list of the
  instance. Below, the sky matrix is not on disk; the script of the second call on the
  same recipe holds the commands of the sky stage twice.
\<close>

theorem sky_twice_counterexample:
  "\<not> stageOnDisk demoSite ''/sim/office'' (skyStage demoSite ''/sim/office'' demoSky) \<and>
   scriptWritten demoSite ''/sim'' ''office'' True
      (recipeAfterWrite demoSite ''/sim'' ''office'' True demoRecipe) =
     py_join [CHR 0x0A]
       [''@echo off'',
        ''cd /sim/office'', ''echo :: sky matrix'', ''gendaymtx skymtx_r2'',
        ''rfluxmtx south 0'', ''rfluxmtx south 1'', ''rfluxmtx south 2'',
        ''rfluxmtx roof 0'', ''rfluxmtx roof 1'',
        ''cd /sim/office'', ''echo :: sky matrix'', ''gendaymtx skymtx_r2'',
        ''rfluxmtx south 0'', ''rfluxmtx south 1'', ''rfluxmtx south 2'',
        ''rfluxmtx roof 0'', ''rfluxmtx roof 1''] \<and>
   count_list (commands (recipeAfterWrite demoSite ''/sim'' ''office'' True
      (recipeAfterWrite demoSite ''/sim'' ''office'' True demoRecipe))) ''gendaymtx skymtx_r2'' = 2"
proof -
  have 1: "\<not> stageOnDisk demoSite ''/sim/office'' (skyStage demoSite ''/sim/office'' demoSky)"
    by (simp add: stageOnDisk_def demoSite_def demoSky_def os_path_join_def)
  have 2: "commands (recipeAfterWrite demoSite ''/sim'' ''office'' True
      (recipeAfterWrite demoSite ''/sim'' ''office'' True demoRecipe)) =
     [''cd /sim/office'', '':: sky matrix'', ''gendaymtx skymtx_r2'',
      ''rfluxmtx south 0'', ''rfluxmtx south 1'', ''rfluxmtx south 2'',
      ''rfluxmtx roof 0'', ''rfluxmtx roof 1'',
      ''cd /sim/office'', '':: sky matrix'', ''gendaymtx skymtx_r2'',
      ''rfluxmtx south 0'', ''rfluxmtx south 1'', ''rfluxmtx south 2'',
      ''rfluxmtx roof 0'', ''rfluxmtx roof 1'']"
    by (simp add: write_commands_emitted emittedCommands_after_write demo_emitted
        demo_lists_empty)
  have 3: "scriptWritten demoSite ''/sim'' ''office'' True
      (recipeAfterWrite demoSite ''/sim'' ''office'' True demoRecipe) =
     py_join [CHR 0x0A] (''@echo off'' # echoComments
       (commands (recipeAfterWrite demoSite ''/sim'' ''office'' True
          (recipeAfterWrite demoSite ''/sim'' ''office'' True demoRecipe))))"
    by (rule write_script)
  from 1 2 3 show ?thesis
    by (simp add: echoComments_def)
qed

text \<open>
  Claim C3, amended. \<^verbatim>\<open>write\<close> asks for the sky stage with \<^verbatim>\<open>reuse=True\<close>,
  always: whatever the recipe's reuse flag \<open>b\<close> and its window groups \<open>wgs\<close> are, a
  call adds the same sky block, once, between the header and the daylight-coefficient
  stages, and this block is empty when the sky stage's files are on disk and the sky
  stage's commands otherwise. The sky is not generated again for a window group. On an
  instance whose command list is empty the script written is the echo-off line
  followed by exactly what the call adds, so it holds the sky block once; on an
  instance that has been written before, the script also repeats what the earlier
  calls added.
\<close>

theorem write_sky_reuse:
  "commands (recipeAfterWrite site tf pn hdr (r\<lparr>reuseDaylightMtx := b, windowGroups := wgs\<rparr>)) =
     commands r @
     (if hdr then [header site (writeContent site tf pn)] else []) @
     fst (getCommandsSky site (writeContent site tf pn) (skyMatrix r) True) @
     concat (map (\<lambda>st. if b \<and> stageOnDisk site (writeContent site tf pn) st
                        then [] else stageCommands st)
               (daylightStages site tf pn (r\<lparr>reuseDaylightMtx := b, windowGroups := wgs\<rparr>))) \<and>
   fst (getCommandsSky site (writeContent site tf pn) (skyMatrix r) True) =
     (if stageOnDisk site (writeContent site tf pn)
           (skyStage site (writeContent site tf pn) (skyMatrix r))
      then [] else stageCommands (skyStage site (writeContent site tf pn) (skyMatrix r))) \<and>
   (commands r = [] \<longrightarrow>
      scriptWritten site tf pn hdr (r\<lparr>reuseDaylightMtx := b, windowGroups := wgs\<rparr>) =
        py_join [CHR 0x0A]
          (''@echo off'' # echoComments
             ((if hdr then [header site (writeContent site tf pn)] else []) @
              fst (getCommandsSky site (writeContent site tf pn) (skyMatrix r) True) @
              concat (map (\<lambda>st. if b \<and> stageOnDisk site (writeContent site tf pn) st
                                 then [] else stageCommands st)
                        (daylightStages site tf pn
                           (r\<lparr>reuseDaylightMtx := b, windowGroups := wgs\<rparr>))))))"
  by (simp add: write_commands write_script getCommandsSky_def fst_emitStage)

theorem write_sky_reuse_witness:
  "commands (recipeAfterWrite demoSkySite ''/sim'' ''office'' True
      (demoRecipe\<lparr>reuseDaylightMtx := False, windowGroups := []\<rparr>))
     = [''cd /sim/office'', ''rfluxmtx scene''] \<and>
   commands (recipeAfterWrite demoSkySite ''/sim'' ''office'' True
      (demoRecipe\<lparr>reuseDaylightMtx := True, windowGroups := []\<rparr>))
     = [''cd /sim/office'', ''rfluxmtx scene''] \<and>
   scriptWritten demoSkySite ''/sim'' ''office'' True
      (demoRecipe\<lparr>reuseDaylightMtx := True, windowGroups := []\<rparr>)
     = py_join [CHR 0x0A] [''@echo off'', ''cd /sim/office'', ''rfluxmtx scene'']"
proof -
  have folder: "writeContent demoSkySite ''/sim'' ''office'' = ''/sim/office''"
    "header demoSkySite ''/sim/office'' = ''cd /sim/office''"
    by (simp_all add: demoSkySite_def demoSite_def)
  have sky: "stageOnDisk demoSkySite ''/sim/office''
      (skyStage demoSkySite ''/sim/office'' (skyMatrix demoRecipe))"
    by (simp add: stageOnDisk_def demoSkySite_def demoSite_def demoRecipe_def demoSky_def
        os_path_join_def)
  have stages: "daylightStages demoSkySite ''/sim'' ''office''
      (demoRecipe\<lparr>reuseDaylightMtx := b, windowGroups := []\<rparr>) =
      [\<lparr>stageCommands = [''rfluxmtx scene''],
        stageOutputs = [''result/office..scene..default.ill'']\<rparr>]" for b
    by (simp add: daylightStages_def stageArgs_def builderArgs_def groupStages_def Let_def
        demoSkySite_def demoSite_def)
  have scene: "\<not> stageOnDisk demoSkySite ''/sim/office''
      \<lparr>stageCommands = [''rfluxmtx scene''],
        stageOutputs = [''result/office..scene..default.ill'']\<rparr>"
    by (simp add: stageOnDisk_def demoSkySite_def demoSite_def os_path_join_def)
  have c: "commands demoRecipe = []" by (simp add: demoRecipe_def)
  from write_sky_reuse [where site = demoSkySite and tf = "''/sim''" and pn = "''office''"
      and hdr = True and r = demoRecipe and b = False and wgs = "[]"]
  have 1: "commands (recipeAfterWrite demoSkySite ''/sim'' ''office'' True
      (demoRecipe\<lparr>reuseDaylightMtx := False, windowGroups := []\<rparr>))
     = [''cd /sim/office'', ''rfluxmtx scene'']"
    by (simp add: folder sky stages c)
  note t = write_sky_reuse [where site = demoSkySite and tf = "''/sim''" and pn = "''office''"
      and hdr = True and r = demoRecipe and b = True and wgs = "[]"]
  from t have 2: "commands (recipeAfterWrite demoSkySite ''/sim'' ''office'' True
      (demoRecipe\<lparr>reuseDaylightMtx := True, windowGroups := []\<rparr>))
     = [''cd /sim/office'', ''rfluxmtx scene'']"
    by (simp add: folder sky stages scene c)
  from t c have 3: "scriptWritten demoSkySite ''/sim'' ''office'' True
      (demoRecipe\<lparr>reuseDaylightMtx := True, windowGroups := []\<rparr>)
     = py_join [CHR 0x0A] [''@echo off'', ''cd /sim/office'', ''rfluxmtx scene'']"
    by (simp add: folder sky stages scene echoComments_def)
  from 1 2 3 show ?thesis by simp
qed

subsection \<open>Accumulation\<close>

text \<open>
  Claim C9. A call of \<^verbatim>\<open>write\<close> appends to the command list what
  \<open>emittedCommands\<close> gives and to the result-file manifest what \<open>declaredFiles\<close>
  gives; nothing that was there is replaced. A second call on the same instance
  appends both once more, so each list holds its new part twice, and the script of
  the second call lists the whole command list. Put differently, what the recipe
  holds after a call is what it held before, followed by what the same call leaves on
  a recipe with both lists empty. With the header asked for, every call makes the
  command list longer, so the second call does not leave the recipe as the first
  did.
\<close>

theorem write_accumulates:
  "commands (recipeAfterWrite site tf pn hdr r) =
     commands r @ emittedCommands site tf pn hdr r \<and>
   resultFiles (recipeAfterWrite site tf pn hdr r) =
     resultFiles r @ declaredFiles site tf pn r \<and>
   commands (recipeAfterWrite site tf pn hdr (recipeAfterWrite site tf pn hdr r)) =
     commands r @ emittedCommands site tf pn hdr r @ emittedCommands site tf pn hdr r \<and>
   resultFiles (recipeAfterWrite site tf pn hdr (recipeAfterWrite site tf pn hdr r)) =
     resultFiles r @ declaredFiles site tf pn r @ declaredFiles site tf pn r \<and>
   scriptWritten site tf pn hdr (recipeAfterWrite site tf pn hdr r) =
     py_join [CHR 0x0A]
       (''@echo off'' # echoComments
          (commands r @ emittedCommands site tf pn hdr r @ emittedCommands site tf pn hdr r)) \<and>
   commands (recipeAfterWrite site tf pn hdr r) =
     commands r @
       commands (recipeAfterWrite site tf pn hdr (r\<lparr>commands := [], resultFiles := []\<rparr>)) \<and>
   resultFiles (recipeAfterWrite site tf pn hdr r) =
     resultFiles r @
       resultFiles (recipeAfterWrite site tf pn hdr (r\<lparr>commands := [], resultFiles := []\<rparr>)) \<and>
   (hdr \<longrightarrow>
      length (commands r) < length (commands (recipeAfterWrite site tf pn hdr r)) \<and>
      recipeAfterWrite site tf pn hdr (recipeAfterWrite site tf pn hdr r)
        \<noteq> recipeAfterWrite site tf pn hdr r)"
proof -
  have grow: "length (commands x) < length (commands (recipeAfterWrite site tf pn hdr x))"
    if hdr for x :: "('a, 'b) recipe"
    using that by (simp add: write_commands_emitted emittedCommands_def Let_def)
  have ne: "recipeAfterWrite site tf pn hdr (recipeAfterWrite site tf pn hdr r)
        \<noteq> recipeAfterWrite site tf pn hdr r" if hdr
  proof
    assume "recipeAfterWrite site tf pn hdr (recipeAfterWrite site tf pn hdr r)
        = recipeAfterWrite site tf pn hdr r"
    then have "length (commands (recipeAfterWrite site tf pn hdr (recipeAfterWrite site tf pn hdr r)))
        = length (commands (recipeAfterWrite site tf pn hdr r))" by simp
    with grow [OF that, of "recipeAfterWrite site tf pn hdr r"] show False by simp
  qed
  show ?thesis
    using grow [of r] ne
    by (simp add: write_commands_emitted write_resultFiles_declared write_script
        emittedCommands_after_write declaredFiles_after_write
        emittedCommands_accumulators declaredFiles_accumulators)
qed

theorem write_accumulates_witness:
  "resultFiles (recipeAfterWrite demoSite ''/sim'' ''office'' True demoRecipe) =
     [''/sim/office/result/office..scene..default.ill'',
      ''/sim/office/result/office..south..0.ill'',
      ''/sim/office/result/office..south..1.ill'',
      ''/sim/office/result/office..south..2.ill'',
      ''/sim/office/result/office..roof..0.ill'',
      ''/sim/office/result/office..roof..1.ill''] \<and>
   commands (recipeAfterWrite demoSite ''/sim'' ''office'' True
      (recipeAfterWrite demoSite ''/sim'' ''office'' True demoRecipe)) =
     [''cd /sim/office'', '':: sky matrix'', ''gendaymtx skymtx_r2'',
      ''rfluxmtx south 0'', ''rfluxmtx south 1'', ''rfluxmtx south 2'',
      ''rfluxmtx roof 0'', ''rfluxmtx roof 1'',
      ''cd /sim/office'', '':: sky matrix'', ''gendaymtx skymtx_r2'',
      ''rfluxmtx south 0'', ''rfluxmtx south 1'', ''rfluxmtx south 2'',
      ''rfluxmtx roof 0'', ''rfluxmtx roof 1''] \<and>
   resultFiles (recipeAfterWrite demoSite ''/sim'' ''office'' True
      (recipeAfterWrite demoSite ''/sim'' ''office'' True demoRecipe)) =
     [''/sim/office/result/office..scene..default.ill'',
      ''/sim/office/result/office..south..0.ill'',
      ''/sim/office/result/office..south..1.ill'',
      ''/sim/office/result/office..south..2.ill'',
      ''/sim/office/result/office..roof..0.ill'',
      ''/sim/office/result/office..roof..1.ill'',
      ''/sim/office/result/office..scene..default.ill'',
      ''/sim/office/result/office..south..0.ill'',
      ''/sim/office/result/office..south..1.ill'',
      ''/sim/office/result/office..south..2.ill'',
      ''/sim/office/result/office..roof..0.ill'',
      ''/sim/office/result/office..roof..1.ill''] \<and>
   recipeAfterWrite demoSite ''/sim'' ''office'' True
      (recipeAfterWrite demoSite ''/sim'' ''office'' True demoRecipe)
     \<noteq> recipeAfterWrite demoSite ''/sim'' ''office'' True demoRecipe"
proof -
  note w = write_accumulates [of demoSite "''/sim''" "''office''" True demoRecipe]
  from w have 1: "resultFiles (recipeAfterWrite demoSite ''/sim'' ''office'' True demoRecipe) =
     resultFiles demoRecipe @ declaredFiles demoSite ''/sim'' ''office'' demoRecipe"
    by blast
  from w have 2: "commands (recipeAfterWrite demoSite ''/sim'' ''office'' True
      (recipeAfterWrite demoSite ''/sim'' ''office'' True demoRecipe)) =
     commands demoRecipe @ emittedCommands demoSite ''/sim'' ''office'' True demoRecipe @
       emittedCommands demoSite ''/sim'' ''office'' True demoRecipe"
    by blast
  from w have 3: "resultFiles (recipeAfterWrite demoSite ''/sim'' ''office'' True
      (recipeAfterWrite demoSite ''/sim'' ''office'' True demoRecipe)) =
     resultFiles demoRecipe @ declaredFiles demoSite ''/sim'' ''office'' demoRecipe @
       declaredFiles demoSite ''/sim'' ''office'' demoRecipe"
    by blast
  from w have 4: "recipeAfterWrite demoSite ''/sim'' ''office'' True
      (recipeAfterWrite demoSite ''/sim'' ''office'' True demoRecipe)
     \<noteq> recipeAfterWrite demoSite ''/sim'' ''office'' True demoRecipe"
    by blast
  from 1 2 3 4 show ?thesis
    by (simp add: demo_lists_empty demo_emitted demo_declared)
qed

end
